theory Spec2Isabelle
  imports Main "HOL-Library.Word" "HOL-Library.Sublist"
begin

section \<open>JavaScript strings and errors\<close>

text \<open>
  A JavaScript string is a sequence of UTF-16 code units. Every non-ASCII literal of
  \<^verbatim>\<open>server.js\<close> lies in the Basic Multilingual Plane, so each of its characters is
  one code unit, written here as a hexadecimal numeral. ASCII literals are written
  through \<open>ascii\<close>. The program only compares, concatenates and joins strings.
\<close>

type_synonym jsstring = "16 word list"

definition ascii :: "string \<Rightarrow> jsstring" where
  "ascii s = map of_char s"

text \<open>
  The only exception the modelled code can raise by itself is the \<^verbatim>\<open>TypeError\<close> of a
  property read on \<^verbatim>\<open>undefined\<close>; \<^verbatim>\<open>decodeURIComponent\<close> raises \<^verbatim>\<open>URIError\<close>.
\<close>

datatype js_error = TypeError | URIError

section \<open>The upstream payload\<close>

text \<open>
  The upstream document is \<^verbatim>\<open>records.location[].weatherElement[]\<close> with
  \<^verbatim>\<open>records.datasetDescription\<close>. Fields that the code reads behind \<^verbatim>\<open>?.\<close> or
  \<^verbatim>\<open>||\<close> (\<^verbatim>\<open>location\<close>, \<^verbatim>\<open>weatherElement\<close>, \<^verbatim>\<open>time\<close>) are optional here, \<open>None\<close>
  standing for \<^verbatim>\<open>undefined\<close>; arrays have any length, so the time arrays of the elements
  of one location need not be equally long. The remaining fields are read unguarded and
  are strings in the upstream's schema; they are typed as strings.
\<close>

record parameter =
  parameterName :: jsstring

record time_entry =
  startTime :: jsstring
  endTime :: jsstring
  parameter :: parameter

record element =
  elementName :: jsstring
  time :: "time_entry list option"

record location =
  locationName :: jsstring
  weatherElement :: "element list option"

record records =
  location :: "location list option"
  datasetDescription :: jsstring

section \<open>The reshaper\<close>

text \<open>A forecast record: the fields of the object literal of lines 50--59.\<close>

record forecast =
  startTime :: jsstring
  endTime :: jsstring
  weather :: jsstring
  rain :: jsstring
  minTemp :: jsstring
  maxTemp :: jsstring
  comfort :: jsstring
  windSpeed :: jsstring

text \<open>The suffix \<^verbatim>\<open>"\<degree>C"\<close>: U+00B0 followed by \<^verbatim>\<open>C\<close>.\<close>

definition degC :: jsstring where
  "degC = [0x00B0, 0x0043]"

text \<open>
  \<^verbatim>\<open>weatherElements?.[0]?.time?.length || 0\<close>: zero when the array is \<^verbatim>\<open>undefined\<close> or
  empty, or when its first element has no \<^verbatim>\<open>time\<close>.
\<close>

definition timeCount :: "element list option \<Rightarrow> nat" where
  "timeCount weatherElements =
     (case weatherElements of
        None \<Rightarrow> 0
      | Some [] \<Rightarrow> 0
      | Some (e # _) \<Rightarrow> (case time e of None \<Rightarrow> 0 | Some ts \<Rightarrow> length ts))"

text \<open>
  \<^verbatim>\<open>weatherElements[0].time[i]\<close> followed by a property read: each step raises
  \<^verbatim>\<open>TypeError\<close> when what it reads from is \<^verbatim>\<open>undefined\<close>.
\<close>

definition first_time_entry :: "element list option \<Rightarrow> nat \<Rightarrow> js_error + time_entry" where
  "first_time_entry weatherElements i =
     (case weatherElements of
        None \<Rightarrow> Inl TypeError
      | Some [] \<Rightarrow> Inl TypeError
      | Some (e # _) \<Rightarrow>
          (case time e of
             None \<Rightarrow> Inl TypeError
           | Some ts \<Rightarrow> if i < length ts then Inr (ts ! i) else Inl TypeError))"

text \<open>
  The object literal itself: the time stamps of the slot and six empty strings.
\<close>

definition new_forecast :: "time_entry \<Rightarrow> forecast" where
  "new_forecast t =
     \<lparr> startTime = time_entry.startTime t, endTime = time_entry.endTime t,
       weather = [], rain = [], minTemp = [], maxTemp = [], comfort = [], windSpeed = [] \<rparr>"

text \<open>
  The callback of \<^verbatim>\<open>forEach\<close> (lines 61--83) at slot \<open>i\<close>. The read
  \<^verbatim>\<open>element.time[i].parameter\<close> comes first, for every element: it raises when
  \<^verbatim>\<open>element.time\<close> is \<^verbatim>\<open>undefined\<close> or has no entry \<open>i\<close>. The \<^verbatim>\<open>switch\<close> has no
  default branch.
\<close>

definition apply_element :: "nat \<Rightarrow> forecast \<Rightarrow> element \<Rightarrow> js_error + forecast" where
  "apply_element i forecast element =
     (case time element of
        None \<Rightarrow> Inl TypeError
      | Some ts \<Rightarrow>
          if i < length ts then
            (let value = parameter (ts ! i) in
             if elementName element = ascii ''Wx'' then
               Inr (forecast\<lparr>weather := parameterName value\<rparr>)
             else if elementName element = ascii ''PoP'' then
               Inr (forecast\<lparr>rain := parameterName value @ ascii ''%''\<rparr>)
             else if elementName element = ascii ''MinT'' then
               Inr (forecast\<lparr>minTemp := parameterName value @ degC\<rparr>)
             else if elementName element = ascii ''MaxT'' then
               Inr (forecast\<lparr>maxTemp := parameterName value @ degC\<rparr>)
             else if elementName element = ascii ''CI'' then
               Inr (forecast\<lparr>comfort := parameterName value\<rparr>)
             else if elementName element = ascii ''WS'' then
               Inr (forecast\<lparr>windSpeed := parameterName value\<rparr>)
             else Inr forecast)
          else Inl TypeError)"

text \<open>\<^verbatim>\<open>forEach\<close> over the elements in array order; an exception ends it.\<close>

fun forEach_element :: "nat \<Rightarrow> forecast \<Rightarrow> element list \<Rightarrow> js_error + forecast" where
  "forEach_element i forecast [] = Inr forecast"
| "forEach_element i forecast (element # others) =
     (case apply_element i forecast element of
        Inl err \<Rightarrow> Inl err
      | Inr forecast' \<Rightarrow> forEach_element i forecast' others)"

text \<open>One pass of the \<^verbatim>\<open>for\<close> body: the record pushed for slot \<open>i\<close>.\<close>

definition loop_body :: "element list option \<Rightarrow> nat \<Rightarrow> js_error + forecast" where
  "loop_body weatherElements i =
     (case first_time_entry weatherElements i of
        Inl err \<Rightarrow> Inl err
      | Inr t \<Rightarrow>
          (case weatherElements of
             None \<Rightarrow> Inl TypeError
           | Some es \<Rightarrow> forEach_element i (new_forecast t) es))"

text \<open>The \<^verbatim>\<open>for\<close> loop of lines 49--86, with \<^verbatim>\<open>forecasts.push\<close> as an append.\<close>

function parse_loop ::
  "element list option \<Rightarrow> nat \<Rightarrow> nat \<Rightarrow> forecast list \<Rightarrow> js_error + forecast list" where
  "parse_loop weatherElements n i forecasts =
     (if i < n then
        (case loop_body weatherElements i of
           Inl err \<Rightarrow> Inl err
         | Inr forecast \<Rightarrow> parse_loop weatherElements n (i + 1) (forecasts @ [forecast]))
      else Inr forecasts)"
  by pat_completeness auto
termination
  by (relation "measure (\<lambda>(weatherElements, n, i, forecasts). n - i)") auto

definition parseWeatherElements :: "element list option \<Rightarrow> js_error + forecast list" where
  "parseWeatherElements weatherElements =
     parse_loop weatherElements (timeCount weatherElements) 0 []"


section \<open>Configuration, upstream client and responses\<close>

text \<open>
  \<^verbatim>\<open>ALLOWED_CITY_NAMES\<close> (lines 19--42), in the order of the source: Keelung, Taipei,
  New Taipei, Taoyuan, Hsinchu city, Hsinchu county, Miaoli, Taichung, Changhua, Nantou,
  Yunlin, Chiayi city, Chiayi county, Tainan, Kaohsiung, Pingtung, Yilan, Hualien,
  Taitung, Penghu, Kinmen, Lienchiang.
\<close>

definition ALLOWED_CITY_NAMES :: "jsstring list" where
  "ALLOWED_CITY_NAMES =
     [[0x57FA, 0x9686, 0x5E02],
      [0x81FA, 0x5317, 0x5E02],
      [0x65B0, 0x5317, 0x5E02],
      [0x6843, 0x5712, 0x5E02],
      [0x65B0, 0x7AF9, 0x5E02],
      [0x65B0, 0x7AF9, 0x7E23],
      [0x82D7, 0x6817, 0x7E23],
      [0x81FA, 0x4E2D, 0x5E02],
      [0x5F70, 0x5316, 0x7E23],
      [0x5357, 0x6295, 0x7E23],
      [0x96F2, 0x6797, 0x7E23],
      [0x5609, 0x7FA9, 0x5E02],
      [0x5609, 0x7FA9, 0x7E23],
      [0x81FA, 0x5357, 0x5E02],
      [0x9AD8, 0x96C4, 0x5E02],
      [0x5C4F, 0x6771, 0x7E23],
      [0x5B9C, 0x862D, 0x7E23],
      [0x82B1, 0x84EE, 0x7E23],
      [0x81FA, 0x6771, 0x7E23],
      [0x6F8E, 0x6E56, 0x7E23],
      [0x91D1, 0x9580, 0x7E23],
      [0x9023, 0x6C5F, 0x7E23]]"

text \<open>The literal of line 183, the fifteenth name of the list.\<close>

definition kaohsiung :: jsstring where
  "kaohsiung = [0x9AD8, 0x96C4, 0x5E02]"

text \<open>\<^verbatim>\<open>process.env.CWA_API_KEY\<close>, read once at start; \<open>None\<close> when the variable is unset.\<close>

record config =
  CWA_API_KEY :: "jsstring option"

text \<open>
  JavaScript truthiness of a value that is a string or \<^verbatim>\<open>undefined\<close>: both
  \<^verbatim>\<open>undefined\<close> and the empty string are falsy.
\<close>

definition falsy :: "jsstring option \<Rightarrow> bool" where
  "falsy v = (case v of None \<Rightarrow> True | Some s \<Rightarrow> s = [])"

text \<open>\<^verbatim>\<open>v || d\<close> on such a value.\<close>

definition or_else :: "jsstring option \<Rightarrow> jsstring \<Rightarrow> jsstring" where
  "or_else v d = (case v of None \<Rightarrow> d | Some s \<Rightarrow> if s = [] then d else s)"

text \<open>\<^verbatim>\<open>Array.prototype.join\<close> on an array of strings.\<close>

fun join :: "jsstring \<Rightarrow> jsstring list \<Rightarrow> jsstring" where
  "join sep [] = []"
| "join sep [x] = x"
| "join sep (x # y # ys) = x @ sep @ join sep (y # ys)"

text \<open>
  What \<^verbatim>\<open>axios.get\<close> settles to. A response with a status outside 2xx rejects with an
  error that carries \<^verbatim>\<open>error.response\<close> (its status and parsed body); a request that
  gets no response rejects with an error whose \<^verbatim>\<open>response\<close> is \<^verbatim>\<open>undefined\<close>. Of the
  upstream's error body the code reads \<^verbatim>\<open>message\<close>; \<open>rest\<close> holds its other members.
\<close>

record upstream_error_data =
  message :: "jsstring option"
  rest :: "(jsstring \<times> jsstring) list"

record error_response =
  status :: nat
  data :: upstream_error_data

datatype axios_result =
    Resolved records
  | Rejected "error_response option"

text \<open>
  The upstream, as seen from this program: the settlement of one GET of the dataset
  \<^verbatim>\<open>F-C0032-001\<close> with the parameters \<^verbatim>\<open>Authorization\<close> and \<^verbatim>\<open>locationName\<close>.
\<close>

type_synonym upstream = "jsstring option \<Rightarrow> jsstring \<Rightarrow> axios_result"

definition fetchWeatherDataset :: "config \<Rightarrow> upstream \<Rightarrow> jsstring \<Rightarrow> axios_result" where
  "fetchWeatherDataset cfg up name = up (CWA_API_KEY cfg) name"

text \<open>What a \<^verbatim>\<open>try\<close> block can throw: a JavaScript exception or an axios rejection.\<close>

datatype thrown =
    Exception js_error
  | Axios_error "error_response option"

record location_weather =
  city :: jsstring
  updateTime :: jsstring
  forecasts :: "forecast list"

datatype weather_data =
    Single location_weather
  | Multiple "location_weather list"

record error_body =
  error :: jsstring
  message :: jsstring
  details :: "upstream_error_data option"

record endpoints =
  kaohsiung_path :: jsstring
  all_path :: jsstring
  city_path :: jsstring
  health_path :: jsstring

datatype body =
    Error_body error_body
  | Success_body weather_data
  | Root_body jsstring "jsstring list" endpoints
  | Health_body jsstring jsstring
  | Not_found_body jsstring

record http_response =
  status :: nat
  body :: body

text \<open>
  What a handler does: the response it sends and, in order, the upstream requests it
  issued (the \<^verbatim>\<open>locationName\<close> of each).
\<close>

record outcome =
  response :: http_response
  requests :: "jsstring list"

definition buildLocationWeather :: "location \<Rightarrow> jsstring \<Rightarrow> js_error + location_weather" where
  "buildLocationWeather loc description =
     (case parseWeatherElements (weatherElement loc) of
        Inl err \<Rightarrow> Inl err
      | Inr fs \<Rightarrow> Inr \<lparr> city = locationName loc, updateTime = description, forecasts = fs \<rparr>)"

text \<open>The response of lines 115--118, the same in the three handlers.\<close>

definition config_error_response :: http_response where
  "config_error_response =
     \<lparr> status = 500,
       body = Error_body
         \<lparr> error = [0x4F3A, 0x670D, 0x5668, 0x8A2D, 0x5B9A, 0x932F, 0x8AA4],
           message = [0x8ACB, 0x5728] @ ascii '' .env '' @ [0x6A94, 0x6848, 0x4E2D, 0x8A2D, 0x5B9A]
             @ ascii '' CWA_API_KEY'',
           details = None \<rparr> \<rparr>"

text \<open>The response of lines 123--126: its message lists the allow-list, joined by U+3001.\<close>

definition validation_error_response :: http_response where
  "validation_error_response =
     \<lparr> status = 400,
       body = Error_body
         \<lparr> error = [0x4E0D, 0x652F, 0x63F4, 0x7684, 0x7E23, 0x5E02],
           message = [0x8ACB, 0x4F7F, 0x7528, 0x4EE5, 0x4E0B, 0x7E23, 0x5E02, 0x540D, 0x7A31, 0xFF1A]
             @ join [0x3001] ALLOWED_CITY_NAMES,
           details = None \<rparr> \<rparr>"

text \<open>The 404 responses of lines 133--136, 189--192 and 241--244 differ in the message.\<close>

definition not_found_response :: "jsstring \<Rightarrow> http_response" where
  "not_found_response msg =
     \<lparr> status = 404,
       body = Error_body
         \<lparr> error = [0x67E5, 0x7121, 0x8CC7, 0x6599], message = msg, details = None \<rparr> \<rparr>"

definition generic_error_response :: http_response where
  "generic_error_response =
     \<lparr> status = 500,
       body = Error_body
         \<lparr> error = [0x4F3A, 0x670D, 0x5668, 0x932F, 0x8AA4],
           message = [0x7121, 0x6CD5, 0x53D6, 0x5F97, 0x5929, 0x6C23, 0x8CC7, 0x6599, 0xFF0C,
                      0x8ACB, 0x7A0D, 0x5F8C, 0x518D, 0x8A66],
           details = None \<rparr> \<rparr>"

text \<open>
  The \<^verbatim>\<open>catch\<close> block, the same in the three handlers but for the text it logs. A
  JavaScript exception has no \<^verbatim>\<open>response\<close> property, so it takes the last branch, as
  an axios error without a response does.
\<close>

definition catch_block :: "thrown \<Rightarrow> http_response" where
  "catch_block err =
     (case err of
        Axios_error (Some r) \<Rightarrow>
          \<lparr> status = error_response.status r,
            body = Error_body
              \<lparr> error = ascii ''CWA API '' @ [0x932F, 0x8AA4],
                message = or_else (upstream_error_data.message (data r))
                  [0x7121, 0x6CD5, 0x53D6, 0x5F97, 0x5929, 0x6C23, 0x8CC7, 0x6599],
                details = Some (data r) \<rparr> \<rparr>
      | Axios_error None \<Rightarrow> generic_error_response
      | Exception e \<Rightarrow> generic_error_response)"


section \<open>The route handlers\<close>

text \<open>
  Lines 129--147 of \<^verbatim>\<open>getCityWeather\<close> and lines 183--203 of \<^verbatim>\<open>getKaohsiungWeather\<close>,
  once the request has settled: the same text but for the message of the 404.
  \<^verbatim>\<open>location?.[0]\<close> is \<^verbatim>\<open>undefined\<close> when \<^verbatim>\<open>location\<close> is missing or empty.
\<close>

definition respond_first :: "jsstring \<Rightarrow> axios_result \<Rightarrow> thrown + http_response" where
  "respond_first msg result =
     (case result of
        Rejected r \<Rightarrow> Inl (Axios_error r)
      | Resolved recs \<Rightarrow>
          (case location recs of
             None \<Rightarrow> Inr (not_found_response msg)
           | Some [] \<Rightarrow> Inr (not_found_response msg)
           | Some (locationData # _) \<Rightarrow>
               (case buildLocationWeather locationData (datasetDescription recs) of
                  Inl e \<Rightarrow> Inl (Exception e)
                | Inr weatherData \<Rightarrow>
                    Inr \<lparr> status = 200, body = Success_body (Single weatherData) \<rparr>)))"

text \<open>
  \<^verbatim>\<open>getCityWeather\<close> (lines 112--164). \<^verbatim>\<open>decodeURIComponent\<close> is a built-in of the
  language, taken as a parameter: it returns the decoded string or raises. The argument
  is \<^verbatim>\<open>req.params.cityName\<close>, \<open>None\<close> when the parameter is \<^verbatim>\<open>undefined\<close>.
\<close>

definition getCityWeather ::
  "(jsstring \<Rightarrow> js_error + jsstring) \<Rightarrow> config \<Rightarrow> upstream \<Rightarrow> jsstring option \<Rightarrow> outcome" where
  "getCityWeather decodeURIComponent cfg up param =
     (if falsy (CWA_API_KEY cfg) then
        \<lparr> response = config_error_response, requests = [] \<rparr>
      else
        (case decodeURIComponent (or_else param []) of
           Inl e \<Rightarrow> \<lparr> response = catch_block (Exception e), requests = [] \<rparr>
         | Inr cityName \<Rightarrow>
             if cityName \<notin> set ALLOWED_CITY_NAMES then
               \<lparr> response = validation_error_response, requests = [] \<rparr>
             else
               \<lparr> response =
                   (case respond_first
                           ([0x7121, 0x6CD5, 0x53D6, 0x5F97, 0x0020] @ cityName
                              @ [0x0020, 0x5929, 0x6C23, 0x8CC7, 0x6599])
                           (fetchWeatherDataset cfg up cityName) of
                      Inl err \<Rightarrow> catch_block err
                    | Inr r \<Rightarrow> r),
                 requests = [cityName] \<rparr>))"

text \<open>\<^verbatim>\<open>getKaohsiungWeather\<close> (lines 171--222).\<close>

definition getKaohsiungWeather :: "config \<Rightarrow> upstream \<Rightarrow> outcome" where
  "getKaohsiungWeather cfg up =
     (if falsy (CWA_API_KEY cfg) then
        \<lparr> response = config_error_response, requests = [] \<rparr>
      else
        \<lparr> response =
            (case respond_first
                    ([0x7121, 0x6CD5, 0x53D6, 0x5F97] @ kaohsiung @ [0x5929, 0x6C23, 0x8CC7, 0x6599])
                    (fetchWeatherDataset cfg up kaohsiung) of
               Inl err \<Rightarrow> catch_block err
             | Inr r \<Rightarrow> r),
          requests = [kaohsiung] \<rparr>)"

text \<open>\<^verbatim>\<open>locations.map\<close> of line 248: in array order, ended by the first exception.\<close>

fun map_locations :: "jsstring \<Rightarrow> location list \<Rightarrow> js_error + location_weather list" where
  "map_locations description [] = Inr []"
| "map_locations description (loc # others) =
     (case buildLocationWeather loc description of
        Inl e \<Rightarrow> Inl e
      | Inr w \<Rightarrow>
          (case map_locations description others of
             Inl e \<Rightarrow> Inl e
           | Inr ws \<Rightarrow> Inr (w # ws)))"

text \<open>Lines 237--255, once the request has settled.\<close>

definition respond_all :: "axios_result \<Rightarrow> thrown + http_response" where
  "respond_all result =
     (case result of
        Rejected r \<Rightarrow> Inl (Axios_error r)
      | Resolved recs \<Rightarrow>
          (let locations = (case location recs of None \<Rightarrow> [] | Some ls \<Rightarrow> ls) in
           if length locations = 0 then
             Inr (not_found_response
                    [0x7121, 0x6CD5, 0x53D6, 0x5F97, 0x5168, 0x7E23, 0x5E02, 0x5929, 0x6C23,
                     0x8CC7, 0x6599])
           else
             (case map_locations (datasetDescription recs) locations of
                Inl e \<Rightarrow> Inl (Exception e)
              | Inr weatherData \<Rightarrow>
                  Inr \<lparr> status = 200, body = Success_body (Multiple weatherData) \<rparr>)))"

text \<open>\<^verbatim>\<open>getAllCityWeather\<close> (lines 228--272).\<close>

definition getAllCityWeather :: "config \<Rightarrow> upstream \<Rightarrow> outcome" where
  "getAllCityWeather cfg up =
     (if falsy (CWA_API_KEY cfg) then
        \<lparr> response = config_error_response, requests = [] \<rparr>
      else
        \<lparr> response =
            (case respond_all (fetchWeatherDataset cfg up []) of
               Inl err \<Rightarrow> catch_block err
             | Inr r \<Rightarrow> r),
          requests = [[]] \<rparr>)"

section \<open>The routing table\<close>

text \<open>
  The handler of \<^verbatim>\<open>/\<close> (lines 275--309); its list repeats the 22 names of
  \<^verbatim>\<open>ALLOWED_CITY_NAMES\<close> in the same order.
\<close>

definition root_response :: http_response where
  "root_response =
     \<lparr> status = 200,
       body = Root_body
         ([0x6B61, 0x8FCE, 0x4F7F, 0x7528] @ ascii '' CWA '' @ [0x5929, 0x6C23, 0x9810, 0x5831]
            @ ascii '' API'')
         ALLOWED_CITY_NAMES
         \<lparr> kaohsiung_path = ascii ''/api/weather/kaohsiung'',
           all_path = ascii ''/api/weather/all'',
           city_path = ascii ''/api/weather/city/:cityName'',
           health_path = ascii ''/api/health'' \<rparr> \<rparr>"

text \<open>The handler of \<^verbatim>\<open>/api/health\<close>; \<open>now\<close> is \<^verbatim>\<open>new Date().toISOString()\<close>.\<close>

definition health_response :: "jsstring \<Rightarrow> http_response" where
  "health_response now = \<lparr> status = 200, body = Health_body (ascii ''OK'') now \<rparr>"

text \<open>The last middleware (lines 334--338).\<close>

definition unmatched_response :: http_response where
  "unmatched_response =
     \<lparr> status = 404, body = Not_found_body [0x627E, 0x4E0D, 0x5230, 0x6B64, 0x8DEF, 0x5F91] \<rparr>"

text \<open>
  A request, given by the route of lines 275--322 that its method and path match; the
  matching itself is the framework's.
\<close>

datatype request =
    Get_root
  | Get_health
  | Get_kaohsiung
  | Get_city "jsstring option"
  | Get_all
  | Unmatched

definition app ::
  "(jsstring \<Rightarrow> js_error + jsstring) \<Rightarrow> config \<Rightarrow> upstream \<Rightarrow> jsstring \<Rightarrow> request \<Rightarrow> outcome" where
  "app decodeURIComponent cfg up now req =
     (case req of
        Get_root \<Rightarrow> \<lparr> response = root_response, requests = [] \<rparr>
      | Get_health \<Rightarrow> \<lparr> response = health_response now, requests = [] \<rparr>
      | Get_kaohsiung \<Rightarrow> getKaohsiungWeather cfg up
      | Get_city param \<Rightarrow> getCityWeather decodeURIComponent cfg up param
      | Get_all \<Rightarrow> getAllCityWeather cfg up
      | Unmatched \<Rightarrow> \<lparr> response = unmatched_response, requests = [] \<rparr>)"

section \<open>Notions used in the statements\<close>

text \<open>
  The length of \<^verbatim>\<open>element.time\<close>, zero when the array is missing, as in the
  \<^verbatim>\<open>time?.length || 0\<close> of line 46.
\<close>

definition time_length :: "element \<Rightarrow> nat" where
  "time_length e = (case time e of None \<Rightarrow> 0 | Some ts \<Rightarrow> length ts)"

text \<open>The six element kinds that the \<^verbatim>\<open>switch\<close> of lines 63--82 names.\<close>

definition recognized :: "jsstring \<Rightarrow> bool" where
  "recognized name =
     (name \<in> set [ascii ''Wx'', ascii ''PoP'', ascii ''MinT'', ascii ''MaxT'', ascii ''CI'',
                   ascii ''WS''])"

text \<open>Some element of the array has the given kind.\<close>

definition present :: "jsstring \<Rightarrow> element list option \<Rightarrow> bool" where
  "present kind weatherElements =
     (\<exists>e \<in> set (case weatherElements of None \<Rightarrow> [] | Some es \<Rightarrow> es). elementName e = kind)"

text \<open>The \<^verbatim>\<open>message\<close> of an error response, empty for any other body.\<close>

definition message_of :: "http_response \<Rightarrow> jsstring" where
  "message_of r = (case body r of Error_body b \<Rightarrow> message b | _ \<Rightarrow> [])"

section \<open>Example payloads\<close>

text \<open>A time slot from 06:00 to 18:00 with the given parameter value.\<close>

definition slot :: "jsstring \<Rightarrow> time_entry" where
  "slot v =
     \<lparr> time_entry.startTime = ascii ''06:00'', time_entry.endTime = ascii ''18:00'',
       parameter = \<lparr> parameterName = v \<rparr> \<rparr>"

text \<open>One \<^verbatim>\<open>MinT\<close> element of value \<^verbatim>\<open>"20"\<close> at one time slot, and its record.\<close>

definition minT_only :: "element list" where
  "minT_only = [\<lparr> elementName = ascii ''MinT'', time = Some [slot (ascii ''20'')] \<rparr>]"

definition minT_only_forecast :: forecast where
  "minT_only_forecast =
     \<lparr> startTime = ascii ''06:00'', endTime = ascii ''18:00'', weather = [], rain = [],
       minTemp = ascii ''20'' @ degC, maxTemp = [], comfort = [], windSpeed = [] \<rparr>"

text \<open>
  A \<^verbatim>\<open>Wx\<close> element with one time slot and the record of an array that holds it
  alone.
\<close>

definition wx :: element where
  "wx = \<lparr> elementName = ascii ''Wx'', time = Some [slot (ascii ''sunny'')] \<rparr>"

definition wx_forecast :: forecast where
  "wx_forecast =
     \<lparr> startTime = ascii ''06:00'', endTime = ascii ''18:00'', weather = ascii ''sunny'',
       rain = [], minTemp = [], maxTemp = [], comfort = [], windSpeed = [] \<rparr>"

text \<open>
  Elements of the unrecognized kind \<^verbatim>\<open>UVI\<close>: with the slot of \<open>wx\<close>, with an empty
  time array, and with one slot of other times. A \<^verbatim>\<open>PoP\<close> element without \<^verbatim>\<open>time\<close>.
\<close>

definition uvi :: element where
  "uvi = \<lparr> elementName = ascii ''UVI'', time = Some [slot (ascii ''3'')] \<rparr>"

definition uvi_empty :: element where
  "uvi_empty = \<lparr> elementName = ascii ''UVI'', time = Some [] \<rparr>"

definition uvi_night :: element where
  "uvi_night =
     \<lparr> elementName = ascii ''UVI'',
       time = Some [\<lparr> time_entry.startTime = ascii ''18:00'', time_entry.endTime = ascii ''06:00'',
                      parameter = \<lparr> parameterName = ascii ''0'' \<rparr> \<rparr>] \<rparr>"

definition pop_no_time :: element where
  "pop_no_time = \<lparr> elementName = ascii ''PoP'', time = None \<rparr>"

text \<open>The three kinds whose value gets a suffix, each of value \<^verbatim>\<open>"1"\<close> at one slot.\<close>

definition pop1 :: element where
  "pop1 = \<lparr> elementName = ascii ''PoP'', time = Some [slot (ascii ''1'')] \<rparr>"

definition minT1 :: element where
  "minT1 = \<lparr> elementName = ascii ''MinT'', time = Some [slot (ascii ''1'')] \<rparr>"

definition maxT1 :: element where
  "maxT1 = \<lparr> elementName = ascii ''MaxT'', time = Some [slot (ascii ''1'')] \<rparr>"

definition three_suffixed_forecast :: forecast where
  "three_suffixed_forecast =
     \<lparr> startTime = ascii ''06:00'', endTime = ascii ''18:00'', weather = [],
       rain = ascii ''1%'', minTemp = ascii ''1'' @ degC, maxTemp = ascii ''1'' @ degC,
       comfort = [], windSpeed = [] \<rparr>"

text \<open>A process with an API key, one without, and one whose key is the empty string.\<close>

definition configured :: config where
  "configured = \<lparr> CWA_API_KEY = Some (ascii ''CWA-KEY'') \<rparr>"

definition unconfigured :: config where
  "unconfigured = \<lparr> CWA_API_KEY = None \<rparr>"

definition empty_key :: config where
  "empty_key = \<lparr> CWA_API_KEY = Some [] \<rparr>"

text \<open>
  Region names: Taipei as the allow-list has it; Taipei written with U+53F0 in place of
  U+81FA; and a name of another alphabet.
\<close>

definition taipei :: jsstring where
  "taipei = [0x81FA, 0x5317, 0x5E02]"

definition taipei_variant :: jsstring where
  "taipei_variant = [0x53F0, 0x5317, 0x5E02]"

definition atlantis :: jsstring where
  "atlantis = ascii ''Atlantis''"

text \<open>
  Upstreams: one that never answers, one that answers 401 with a body, and one that
  answers 200 with the given \<^verbatim>\<open>location\<close> member.
\<close>

definition no_network :: upstream where
  "no_network key name = Rejected None"

definition unauthorized :: error_response where
  "unauthorized =
     \<lparr> error_response.status = 401,
       data = \<lparr> upstream_error_data.message = Some (ascii ''Unauthorized''), rest = [] \<rparr> \<rparr>"

definition upstream_401 :: upstream where
  "upstream_401 key name = Rejected (Some unauthorized)"

definition upstream_of :: "location list option \<Rightarrow> upstream" where
  "upstream_of ls key name =
     Resolved \<lparr> location = ls, datasetDescription = ascii ''36-hour forecast'' \<rparr>"

text \<open>
  Locations: Taipei with aligned elements, Kaohsiung with one element, and Kaohsiung with
  a \<^verbatim>\<open>PoP\<close> element that has no \<^verbatim>\<open>time\<close>.
\<close>

definition taipei_location :: location where
  "taipei_location = \<lparr> locationName = taipei, weatherElement = Some [wx, uvi] \<rparr>"

definition wx_location :: location where
  "wx_location = \<lparr> locationName = kaohsiung, weatherElement = Some [wx] \<rparr>"

definition ragged_location :: location where
  "ragged_location = \<lparr> locationName = kaohsiung, weatherElement = Some [wx, pop_no_time] \<rparr>"

text \<open>
  Two slots, day and evening, with different time stamps: a \<^verbatim>\<open>Wx\<close> and a \<^verbatim>\<open>PoP\<close>
  element over both, and the two records of the array that holds them.
\<close>

definition evening_slot :: "jsstring \<Rightarrow> time_entry" where
  "evening_slot v =
     \<lparr> time_entry.startTime = ascii ''18:00'', time_entry.endTime = ascii ''06:00'',
       parameter = \<lparr> parameterName = v \<rparr> \<rparr>"

definition wx2 :: element where
  "wx2 =
     \<lparr> elementName = ascii ''Wx'',
       time = Some [slot (ascii ''sunny''), evening_slot (ascii ''cloudy'')] \<rparr>"

definition pop2 :: element where
  "pop2 =
     \<lparr> elementName = ascii ''PoP'', time = Some [slot (ascii ''10''), evening_slot (ascii ''20'')] \<rparr>"

definition day_forecast :: forecast where
  "day_forecast =
     \<lparr> startTime = ascii ''06:00'', endTime = ascii ''18:00'', weather = ascii ''sunny'',
       rain = ascii ''10%'', minTemp = [], maxTemp = [], comfort = [], windSpeed = [] \<rparr>"

definition evening_forecast :: forecast where
  "evening_forecast =
     \<lparr> startTime = ascii ''18:00'', endTime = ascii ''06:00'', weather = ascii ''cloudy'',
       rain = ascii ''20%'', minTemp = [], maxTemp = [], comfort = [], windSpeed = [] \<rparr>"

section \<open>The callback and the loop\<close>

lemma apply_element_Inr_iff:
  "(\<exists>f'. apply_element i f e = Inr f') \<longleftrightarrow> i < time_length e"
  by (auto simp: apply_element_def time_length_def Let_def split: option.splits)

lemma apply_element_Inl:
  "apply_element i f e = Inl err \<Longrightarrow> err = TypeError \<and> \<not> i < time_length e"
  by (auto simp: apply_element_def time_length_def Let_def split: option.splits if_splits)

lemma apply_element_unrecognized:
  "\<not> recognized (elementName e) \<Longrightarrow> i < time_length e \<Longrightarrow> apply_element i f e = Inr f"
  by (auto simp: apply_element_def time_length_def recognized_def Let_def split: option.splits)

lemma apply_element_times:
  "apply_element i f e = Inr f' \<Longrightarrow>
     forecast.startTime f' = forecast.startTime f \<and> forecast.endTime f' = forecast.endTime f"
  by (auto simp: apply_element_def Let_def split: option.splits if_splits)

lemma forEach_element_times:
  "forEach_element i f es = Inr f' \<Longrightarrow>
     forecast.startTime f' = forecast.startTime f \<and> forecast.endTime f' = forecast.endTime f"
proof (induction es arbitrary: f)
  case Nil
  then show ?case by simp
next
  case (Cons e es)
  then show ?case
    by (auto split: sum.splits dest: apply_element_times)
qed

lemma forEach_element_Inr_iff:
  "(\<exists>f'. forEach_element i f es = Inr f') \<longleftrightarrow> (\<forall>e \<in> set es. i < time_length e)"
proof (induction es arbitrary: f)
  case Nil
  then show ?case by simp
next
  case (Cons e es)
  show ?case
  proof (cases "apply_element i f e")
    case (Inl err)
    then show ?thesis using apply_element_Inl[OF Inl] by simp
  next
    case (Inr g)
    then have "i < time_length e" using apply_element_Inr_iff by blast
    then show ?thesis using Inr Cons.IH[of g] by simp
  qed
qed

lemma forEach_element_Inl:
  "forEach_element i f es = Inl err \<Longrightarrow> err = TypeError"
proof (induction es arbitrary: f)
  case Nil
  then show ?case by simp
next
  case (Cons e es)
  then show ?case
    by (auto split: sum.splits dest: apply_element_Inl)
qed

lemma apply_element_absent:
  assumes "apply_element i f e = Inr f'"
  shows "elementName e \<noteq> ascii ''Wx'' \<Longrightarrow> weather f' = weather f"
    and "elementName e \<noteq> ascii ''PoP'' \<Longrightarrow> rain f' = rain f"
    and "elementName e \<noteq> ascii ''MinT'' \<Longrightarrow> minTemp f' = minTemp f"
    and "elementName e \<noteq> ascii ''MaxT'' \<Longrightarrow> maxTemp f' = maxTemp f"
    and "elementName e \<noteq> ascii ''CI'' \<Longrightarrow> comfort f' = comfort f"
    and "elementName e \<noteq> ascii ''WS'' \<Longrightarrow> windSpeed f' = windSpeed f"
  using assms
  by (auto simp: apply_element_def Let_def split: option.splits if_splits)

lemma forEach_element_absent:
  assumes "forEach_element i f es = Inr f'"
  shows "\<forall>e \<in> set es. elementName e \<noteq> ascii ''Wx'' \<Longrightarrow> weather f' = weather f"
    and "\<forall>e \<in> set es. elementName e \<noteq> ascii ''PoP'' \<Longrightarrow> rain f' = rain f"
    and "\<forall>e \<in> set es. elementName e \<noteq> ascii ''MinT'' \<Longrightarrow> minTemp f' = minTemp f"
    and "\<forall>e \<in> set es. elementName e \<noteq> ascii ''MaxT'' \<Longrightarrow> maxTemp f' = maxTemp f"
    and "\<forall>e \<in> set es. elementName e \<noteq> ascii ''CI'' \<Longrightarrow> comfort f' = comfort f"
    and "\<forall>e \<in> set es. elementName e \<noteq> ascii ''WS'' \<Longrightarrow> windSpeed f' = windSpeed f"
  using assms
proof (induction es arbitrary: f)
  case Nil
  {
    case 1 then show ?case by simp
  next
    case 2 then show ?case by simp
  next
    case 3 then show ?case by simp
  next
    case 4 then show ?case by simp
  next
    case 5 then show ?case by simp
  next
    case 6 then show ?case by simp
  }
next
  case (Cons e es)
  {
    case 1 then show ?case
      by (auto split: sum.splits simp: apply_element_absent(1) Cons.IH(1))
  next
    case 2 then show ?case
      by (auto split: sum.splits simp: apply_element_absent(2) Cons.IH(2))
  next
    case 3 then show ?case
      by (auto split: sum.splits simp: apply_element_absent(3) Cons.IH(3))
  next
    case 4 then show ?case
      by (auto split: sum.splits simp: apply_element_absent(4) Cons.IH(4))
  next
    case 5 then show ?case
      by (auto split: sum.splits simp: apply_element_absent(5) Cons.IH(5))
  next
    case 6 then show ?case
      by (auto split: sum.splits simp: apply_element_absent(6) Cons.IH(6))
  }
qed

lemma loop_body_Some:
  "loop_body (Some es) i = Inr f \<Longrightarrow>
     \<exists>t. first_time_entry (Some es) i = Inr t \<and> forEach_element i (new_forecast t) es = Inr f"
  by (auto simp: loop_body_def split: sum.splits)

lemma loop_body_None: "loop_body None i = Inl TypeError"
  by (simp add: loop_body_def first_time_entry_def)

lemma loop_body_Inl: "loop_body we i = Inl err \<Longrightarrow> err = TypeError"
  by (auto simp: loop_body_def first_time_entry_def
      split: sum.splits option.splits list.splits if_splits
      dest: forEach_element_Inl apply_element_Inl)

lemma first_time_entry_Inr_iff:
  "(\<exists>t. first_time_entry (Some es) i = Inr t) \<longleftrightarrow> i < timeCount (Some es)"
  by (auto simp: first_time_entry_def timeCount_def split: list.splits option.splits)

lemma timeCount_Cons: "timeCount (Some (e # es)) = time_length e"
  by (simp add: timeCount_def time_length_def)

lemma loop_body_Inr_iff:
  "(\<exists>f. loop_body (Some es) i = Inr f) \<longleftrightarrow>
     (i < timeCount (Some es) \<and> (\<forall>e \<in> set es. i < time_length e))"
proof
  assume "\<exists>f. loop_body (Some es) i = Inr f"
  then obtain f t where t: "first_time_entry (Some es) i = Inr t"
    and f: "forEach_element i (new_forecast t) es = Inr f"
    using loop_body_Some by blast
  from t have "i < timeCount (Some es)" using first_time_entry_Inr_iff by blast
  moreover from f have "\<forall>e \<in> set es. i < time_length e"
    using forEach_element_Inr_iff by blast
  ultimately show "i < timeCount (Some es) \<and> (\<forall>e \<in> set es. i < time_length e)" ..
next
  assume a: "i < timeCount (Some es) \<and> (\<forall>e \<in> set es. i < time_length e)"
  then obtain t where t: "first_time_entry (Some es) i = Inr t"
    using first_time_entry_Inr_iff by blast
  from a obtain f where "forEach_element i (new_forecast t) es = Inr f"
    using forEach_element_Inr_iff by blast
  with t show "\<exists>f. loop_body (Some es) i = Inr f"
    by (simp add: loop_body_def)
qed

lemma parse_loop_Inr:
  "parse_loop we n i acc = Inr fs \<Longrightarrow>
     \<exists>gs. fs = acc @ gs \<and> length gs = n - i \<and> (\<forall>j < n - i. loop_body we (i + j) = Inr (gs ! j))"
proof (induction we n i acc rule: parse_loop.induct)
  case (1 we n i acc)
  show ?case
  proof (cases "i < n")
    case False
    with "1.prems" show ?thesis by simp
  next
    case True
    with "1.prems" obtain f where f: "loop_body we i = Inr f"
      and rec: "parse_loop we n (i + 1) (acc @ [f]) = Inr fs"
      by (auto split: sum.splits)
    from "1.IH"[OF True f rec] obtain gs where gs: "fs = (acc @ [f]) @ gs"
      "length gs = n - (i + 1)" "\<forall>j < n - (i + 1). loop_body we (i + 1 + j) = Inr (gs ! j)"
      by blast
    have "\<forall>j < n - i. loop_body we (i + j) = Inr ((f # gs) ! j)"
    proof (intro allI impI)
      fix j assume j: "j < n - i"
      show "loop_body we (i + j) = Inr ((f # gs) ! j)"
      proof (cases j)
        case 0
        then show ?thesis using f by simp
      next
        case (Suc k)
        then have "k < n - (i + 1)" using j by simp
        then show ?thesis using gs(3) Suc by simp
      qed
    qed
    moreover have "fs = acc @ (f # gs)" using gs(1) by simp
    moreover have "length (f # gs) = n - i" using gs(2) True by simp
    ultimately show ?thesis by blast
  qed
qed

lemma parse_loop_Inl: "parse_loop we n i acc = Inl err \<Longrightarrow> err = TypeError"
proof (induction we n i acc rule: parse_loop.induct)
  case (1 we n i acc)
  show ?case
  proof (cases "i < n")
    case False
    with "1.prems" show ?thesis by simp
  next
    case True
    show ?thesis
    proof (cases "loop_body we i")
      case (Inl e)
      with True "1.prems" show ?thesis using loop_body_Inl by simp
    next
      case (Inr f)
      with True "1.prems" "1.IH"[OF True Inr] show ?thesis by simp
    qed
  qed
qed

lemma parse_loop_total:
  "(\<forall>j. i \<le> j \<and> j < n \<longrightarrow> (\<exists>f. loop_body we j = Inr f)) \<Longrightarrow>
     \<exists>fs. parse_loop we n i acc = Inr fs"
proof (induction we n i acc rule: parse_loop.induct)
  case (1 we n i acc)
  show ?case
  proof (cases "i < n")
    case False
    then show ?thesis by simp
  next
    case True
    then obtain f where f: "loop_body we i = Inr f" using "1.prems" by auto
    have "\<forall>j. i + 1 \<le> j \<and> j < n \<longrightarrow> (\<exists>f. loop_body we j = Inr f)"
      using "1.prems" by auto
    from "1.IH"[OF True f this] obtain fs where "parse_loop we n (i + 1) (acc @ [f]) = Inr fs"
      by blast
    with True f show ?thesis by simp
  qed
qed

lemma loop_body_absent:
  assumes "loop_body we i = Inr f"
  shows "\<not> present (ascii ''Wx'') we \<Longrightarrow> weather f = []"
    and "\<not> present (ascii ''PoP'') we \<Longrightarrow> rain f = []"
    and "\<not> present (ascii ''MinT'') we \<Longrightarrow> minTemp f = []"
    and "\<not> present (ascii ''MaxT'') we \<Longrightarrow> maxTemp f = []"
    and "\<not> present (ascii ''CI'') we \<Longrightarrow> comfort f = []"
    and "\<not> present (ascii ''WS'') we \<Longrightarrow> windSpeed f = []"
proof -
  from assms obtain es where we: "we = Some es"
    by (cases we) (simp_all add: loop_body_None)
  with assms obtain t where f: "forEach_element i (new_forecast t) es = Inr f"
    using loop_body_Some by blast
  show "\<not> present (ascii ''Wx'') we \<Longrightarrow> weather f = []"
    using forEach_element_absent(1)[OF f] by (simp add: present_def we new_forecast_def)
  show "\<not> present (ascii ''PoP'') we \<Longrightarrow> rain f = []"
    using forEach_element_absent(2)[OF f] by (simp add: present_def we new_forecast_def)
  show "\<not> present (ascii ''MinT'') we \<Longrightarrow> minTemp f = []"
    using forEach_element_absent(3)[OF f] by (simp add: present_def we new_forecast_def)
  show "\<not> present (ascii ''MaxT'') we \<Longrightarrow> maxTemp f = []"
    using forEach_element_absent(4)[OF f] by (simp add: present_def we new_forecast_def)
  show "\<not> present (ascii ''CI'') we \<Longrightarrow> comfort f = []"
    using forEach_element_absent(5)[OF f] by (simp add: present_def we new_forecast_def)
  show "\<not> present (ascii ''WS'') we \<Longrightarrow> windSpeed f = []"
    using forEach_element_absent(6)[OF f] by (simp add: present_def we new_forecast_def)
qed

lemma parse_records:
  assumes "parseWeatherElements we = Inr fs"
  shows "length fs = timeCount we" and "\<forall>i < length fs. loop_body we i = Inr (fs ! i)"
proof -
  from assms obtain gs where gs: "fs = [] @ gs" "length gs = timeCount we - 0"
    "\<forall>j < timeCount we - 0. loop_body we (0 + j) = Inr (gs ! j)"
    unfolding parseWeatherElements_def using parse_loop_Inr by blast
  then show "length fs = timeCount we" by simp
  from gs show "\<forall>i < length fs. loop_body we i = Inr (fs ! i)" by simp
qed

lemma parse_total_iff:
  "(\<exists>fs. parseWeatherElements (Some es) = Inr fs) \<longleftrightarrow>
     (\<forall>e \<in> set es. timeCount (Some es) \<le> time_length e)"
proof
  assume "\<exists>fs. parseWeatherElements (Some es) = Inr fs"
  then obtain fs where fs: "parseWeatherElements (Some es) = Inr fs" ..
  show "\<forall>e \<in> set es. timeCount (Some es) \<le> time_length e"
  proof (rule ccontr)
    assume "\<not> (\<forall>e \<in> set es. timeCount (Some es) \<le> time_length e)"
    then obtain e where e: "e \<in> set es" "time_length e < timeCount (Some es)"
      by auto
    then have "time_length e < length fs"
      using parse_records(1)[OF fs] by simp
    then have "\<exists>f. loop_body (Some es) (time_length e) = Inr f"
      using parse_records(2)[OF fs] by blast
    then have "time_length e < time_length e"
      using loop_body_Inr_iff e(1) by blast
    then show False by simp
  qed
next
  assume a: "\<forall>e \<in> set es. timeCount (Some es) \<le> time_length e"
  have "\<forall>j. 0 \<le> j \<and> j < timeCount (Some es) \<longrightarrow> (\<exists>f. loop_body (Some es) j = Inr f)"
    using a loop_body_Inr_iff by fastforce
  then show "\<exists>fs. parseWeatherElements (Some es) = Inr fs"
    unfolding parseWeatherElements_def by (rule parse_loop_total)
qed

lemma parse_Inl: "parseWeatherElements we = Inl err \<Longrightarrow> err = TypeError"
  unfolding parseWeatherElements_def by (rule parse_loop_Inl)

lemma timeCount_zero: "timeCount we = 0 \<Longrightarrow> parseWeatherElements we = Inr []"
  by (simp add: parseWeatherElements_def)

lemma forEach_element_filter:
  "\<forall>u \<in> set es. \<not> recognized (elementName u) \<longrightarrow> i < time_length u \<Longrightarrow>
     forEach_element i f es = forEach_element i f (filter (\<lambda>e. recognized (elementName e)) es)"
proof (induction es arbitrary: f)
  case Nil
  then show ?case by simp
next
  case (Cons e es)
  show ?case
  proof (cases "recognized (elementName e)")
    case True
    then show ?thesis using Cons by (simp split: sum.splits)
  next
    case False
    then have "apply_element i f e = Inr f"
      using Cons.prems by (simp add: apply_element_unrecognized)
    then show ?thesis using False Cons by simp
  qed
qed

lemma parse_loop_cong:
  "(\<forall>j. i \<le> j \<and> j < n \<longrightarrow> loop_body a j = loop_body b j) \<Longrightarrow>
     parse_loop a n i acc = parse_loop b n i acc"
proof (induction a n i acc rule: parse_loop.induct)
  case (1 a n i acc)
  show ?case
  proof (cases "i < n")
    case False
    then show ?thesis by simp
  next
    case True
    then have eq: "loop_body a i = loop_body b i" using "1.prems" by simp
    show ?thesis
    proof (cases "loop_body a i")
      case (Inl err)
      moreover from Inl eq have "loop_body b i = Inl err" by simp
      ultimately show ?thesis using True by simp
    next
      case (Inr f)
      have "\<forall>j. i + 1 \<le> j \<and> j < n \<longrightarrow> loop_body a j = loop_body b j"
        using "1.prems" by simp
      from "1.IH"[OF True Inr this]
      have "parse_loop a n (i + 1) (acc @ [f]) = parse_loop b n (i + 1) (acc @ [f])" .
      moreover from Inr eq have "loop_body b i = Inr f" by simp
      ultimately show ?thesis using True Inr by simp
    qed
  qed
qed

lemma forEach_element_append:
  "forEach_element i f (xs @ ys) =
     (case forEach_element i f xs of Inl err \<Rightarrow> Inl err | Inr g \<Rightarrow> forEach_element i g ys)"
  by (induction xs arbitrary: f) (auto split: sum.splits)

lemma apply_element_sets:
  assumes "apply_element i f e = Inr f'" and "time e = Some ts"
  shows "elementName e = ascii ''Wx'' \<Longrightarrow> weather f' = parameterName (parameter (ts ! i))"
    and "elementName e = ascii ''PoP'' \<Longrightarrow>
           rain f' = parameterName (parameter (ts ! i)) @ ascii ''%''"
    and "elementName e = ascii ''MinT'' \<Longrightarrow>
           minTemp f' = parameterName (parameter (ts ! i)) @ degC"
    and "elementName e = ascii ''MaxT'' \<Longrightarrow>
           maxTemp f' = parameterName (parameter (ts ! i)) @ degC"
    and "elementName e = ascii ''CI'' \<Longrightarrow> comfort f' = parameterName (parameter (ts ! i))"
    and "elementName e = ascii ''WS'' \<Longrightarrow> windSpeed f' = parameterName (parameter (ts ! i))"
  using assms
  by (auto simp: apply_element_def Let_def ascii_def split: if_splits)

lemma forEach_element_last:
  assumes "forEach_element i f (xs @ e # ys) = Inr f'"
  obtains g h where "apply_element i g e = Inr h" and "forEach_element i h ys = Inr f'"
  using assms by (auto simp: forEach_element_append split: sum.splits)

lemma loop_body_written:
  assumes "loop_body (Some (xs @ e # ys)) i = Inr f" and "time e = Some ts"
    and "\<forall>y \<in> set ys. elementName y \<noteq> elementName e"
  shows "(elementName e = ascii ''Wx'' \<longrightarrow> weather f = parameterName (parameter (ts ! i))) \<and>
         (elementName e = ascii ''PoP'' \<longrightarrow>
            rain f = parameterName (parameter (ts ! i)) @ ascii ''%'') \<and>
         (elementName e = ascii ''MinT'' \<longrightarrow>
            minTemp f = parameterName (parameter (ts ! i)) @ degC) \<and>
         (elementName e = ascii ''MaxT'' \<longrightarrow>
            maxTemp f = parameterName (parameter (ts ! i)) @ degC) \<and>
         (elementName e = ascii ''CI'' \<longrightarrow> comfort f = parameterName (parameter (ts ! i))) \<and>
         (elementName e = ascii ''WS'' \<longrightarrow> windSpeed f = parameterName (parameter (ts ! i)))"
proof -
  from assms(1) obtain t0 where "forEach_element i (new_forecast t0) (xs @ e # ys) = Inr f"
    using loop_body_Some by blast
  then obtain g h where h: "apply_element i g e = Inr h"
    and rest: "forEach_element i h ys = Inr f"
    by (rule forEach_element_last)
  note sets = apply_element_sets[OF h assms(2)]
  note keeps = forEach_element_absent[OF rest]
  have "weather f = parameterName (parameter (ts ! i))" if "elementName e = ascii ''Wx''"
    using that sets(1) keeps(1) assms(3) by simp
  moreover have "rain f = parameterName (parameter (ts ! i)) @ ascii ''%''"
    if "elementName e = ascii ''PoP''"
    using that sets(2) keeps(2) assms(3) by simp
  moreover have "minTemp f = parameterName (parameter (ts ! i)) @ degC"
    if "elementName e = ascii ''MinT''"
    using that sets(3) keeps(3) assms(3) by simp
  moreover have "maxTemp f = parameterName (parameter (ts ! i)) @ degC"
    if "elementName e = ascii ''MaxT''"
    using that sets(4) keeps(4) assms(3) by simp
  moreover have "comfort f = parameterName (parameter (ts ! i))" if "elementName e = ascii ''CI''"
    using that sets(5) keeps(5) assms(3) by simp
  moreover have "windSpeed f = parameterName (parameter (ts ! i))"
    if "elementName e = ascii ''WS''"
    using that sets(6) keeps(6) assms(3) by simp
  ultimately show ?thesis by blast
qed

lemma loop_body_times:
  assumes "loop_body (Some (e0 # others)) i = Inr f" and "time e0 = Some ts"
  shows "i < length ts \<and> forecast.startTime f = time_entry.startTime (ts ! i) \<and>
         forecast.endTime f = time_entry.endTime (ts ! i)"
proof -
  from assms(1) obtain t where t: "first_time_entry (Some (e0 # others)) i = Inr t"
    and f: "forEach_element i (new_forecast t) (e0 # others) = Inr f"
    using loop_body_Some by blast
  from t assms(2) have "i < length ts \<and> t = ts ! i"
    by (simp add: first_time_entry_def split: if_splits)
  with forEach_element_times[OF f] show ?thesis
    by (simp add: new_forecast_def)
qed

lemma parse_Cons_total_iff:
  "(\<exists>fs. parseWeatherElements (Some (e0 # others)) = Inr fs) \<longleftrightarrow>
     (\<forall>e \<in> set others. time_length e0 \<le> time_length e)"
  using parse_total_iff[of "e0 # others"] by (simp add: timeCount_Cons)

lemma parse_Cons_length:
  assumes "parseWeatherElements (Some (e0 # others)) = Inr fs"
  shows "length fs = time_length e0"
  using parse_records(1)[OF assms] by (simp add: timeCount_Cons)

section \<open>The reshaper on the example payloads\<close>

lemmas reshaper_defs =
  parseWeatherElements_def timeCount_def loop_body_def first_time_entry_def new_forecast_def
  apply_element_def slot_def ascii_def degC_def

lemmas example_defs =
  wx_def wx_forecast_def uvi_def uvi_empty_def uvi_night_def pop_no_time_def pop1_def minT1_def
  maxT1_def three_suffixed_forecast_def

lemma parse_minT_only: "parseWeatherElements (Some minT_only) = Inr [minT_only_forecast]"
  by (simp add: reshaper_defs minT_only_def minT_only_forecast_def)

lemma parse_three_suffixed:
  "parseWeatherElements (Some [pop1, minT1, maxT1]) = Inr [three_suffixed_forecast]"
  by (simp add: reshaper_defs example_defs)

lemmas two_slot_defs = evening_slot_def wx2_def pop2_def day_forecast_def evening_forecast_def

lemma parse_two_slots:
  "parseWeatherElements (Some [wx2, pop2]) = Inr [day_forecast, evening_forecast]"
  by (simp add: reshaper_defs two_slot_defs numeral_2_eq_2)

section \<open>Claims about the reshaper\<close>

text \<open>
  Claim C1. Every record that \<open>parseWeatherElements\<close> produces has its six weather
  fields, strings by the type of the record, and each field whose element kind does not
  occur in the array is the empty string.
\<close>

theorem reshaper_absent_fields_empty:
  assumes "parseWeatherElements weatherElements = Inr fs" and "f \<in> set fs"
  shows "(\<not> present (ascii ''Wx'') weatherElements \<longrightarrow> weather f = []) \<and>
         (\<not> present (ascii ''PoP'') weatherElements \<longrightarrow> rain f = []) \<and>
         (\<not> present (ascii ''MinT'') weatherElements \<longrightarrow> minTemp f = []) \<and>
         (\<not> present (ascii ''MaxT'') weatherElements \<longrightarrow> maxTemp f = []) \<and>
         (\<not> present (ascii ''CI'') weatherElements \<longrightarrow> comfort f = []) \<and>
         (\<not> present (ascii ''WS'') weatherElements \<longrightarrow> windSpeed f = [])"
proof -
  from assms(2) obtain i where i: "i < length fs" "f = fs ! i"
    by (auto simp: in_set_conv_nth)
  with parse_records(2)[OF assms(1)] have body: "loop_body weatherElements i = Inr f"
    by simp
  show ?thesis
    using loop_body_absent[OF body] by blast
qed

theorem reshaper_absent_fields_empty_witness:
  "parseWeatherElements (Some minT_only) = Inr [minT_only_forecast] \<and>
   minT_only_forecast \<in> set [minT_only_forecast] \<and>
   \<not> present (ascii ''Wx'') (Some minT_only) \<and> weather minT_only_forecast = [] \<and>
   \<not> present (ascii ''PoP'') (Some minT_only) \<and> rain minT_only_forecast = [] \<and>
   present (ascii ''MinT'') (Some minT_only) \<and> minTemp minT_only_forecast \<noteq> [] \<and>
   \<not> present (ascii ''MaxT'') (Some minT_only) \<and> maxTemp minT_only_forecast = [] \<and>
   \<not> present (ascii ''CI'') (Some minT_only) \<and> comfort minT_only_forecast = [] \<and>
   \<not> present (ascii ''WS'') (Some minT_only) \<and> windSpeed minT_only_forecast = []"
proof -
  have p: "\<not> present (ascii ''Wx'') (Some minT_only)" "\<not> present (ascii ''PoP'') (Some minT_only)"
    "present (ascii ''MinT'') (Some minT_only)" "\<not> present (ascii ''MaxT'') (Some minT_only)"
    "\<not> present (ascii ''CI'') (Some minT_only)" "\<not> present (ascii ''WS'') (Some minT_only)"
    by (simp_all add: present_def minT_only_def ascii_def)
  have m: "minT_only_forecast \<in> set [minT_only_forecast]"
    by simp
  have n: "minTemp minT_only_forecast \<noteq> []"
    by (simp add: minT_only_forecast_def ascii_def)
  show ?thesis
    using reshaper_absent_fields_empty[OF parse_minT_only m] p m n parse_minT_only by simp
qed

text \<open>
  Claim C2, as stated, fails: with a \<^verbatim>\<open>Wx\<close> element of one time entry followed by a
  \<^verbatim>\<open>PoP\<close> element without \<^verbatim>\<open>time\<close>, the reshaper raises instead of returning one
  record.
\<close>

theorem reshaper_throws_on_short_time_array_counterexample:
  "time wx = Some [slot (ascii ''sunny'')] \<and>
   length [slot (ascii ''sunny'')] = 1 \<and>
   parseWeatherElements (Some [wx, pop_no_time]) = Inl TypeError"
  by (simp add: reshaper_defs example_defs)

text \<open>
  Claim C2, amended. An \<^verbatim>\<open>undefined\<close> or empty array, and an array whose first element
  has no time entries, give the empty sequence and no exception. When the first element
  has the time array \<open>ts\<close> and every later element has at least \<open>length ts\<close> time
  entries, the reshaper returns exactly \<open>length ts\<close> records, and record \<open>i\<close> is built
  from slot \<open>i\<close>: its \<^verbatim>\<open>startTime\<close> and \<^verbatim>\<open>endTime\<close> are those of \<open>ts ! i\<close>, a field
  whose kind does not occur is empty, and the field of a kind that occurs holds the value
  at entry \<open>i\<close> of the last element of that kind, with its suffix.
\<close>

theorem reshaper_one_record_per_slot:
  "parseWeatherElements None = Inr [] \<and>
   parseWeatherElements (Some []) = Inr [] \<and>
   (time e0 = None \<or> time e0 = Some [] \<longrightarrow>
      parseWeatherElements (Some (e0 # others)) = Inr []) \<and>
   (time e0 = Some ts \<and> (\<forall>e \<in> set others. length ts \<le> time_length e) \<longrightarrow>
      (\<exists>fs. parseWeatherElements (Some (e0 # others)) = Inr fs \<and> length fs = length ts \<and>
         (\<forall>i < length ts.
            forecast.startTime (fs ! i) = time_entry.startTime (ts ! i) \<and>
            forecast.endTime (fs ! i) = time_entry.endTime (ts ! i) \<and>
            (\<not> present (ascii ''Wx'') (Some (e0 # others)) \<longrightarrow> weather (fs ! i) = []) \<and>
            (\<not> present (ascii ''PoP'') (Some (e0 # others)) \<longrightarrow> rain (fs ! i) = []) \<and>
            (\<not> present (ascii ''MinT'') (Some (e0 # others)) \<longrightarrow> minTemp (fs ! i) = []) \<and>
            (\<not> present (ascii ''MaxT'') (Some (e0 # others)) \<longrightarrow> maxTemp (fs ! i) = []) \<and>
            (\<not> present (ascii ''CI'') (Some (e0 # others)) \<longrightarrow> comfort (fs ! i) = []) \<and>
            (\<not> present (ascii ''WS'') (Some (e0 # others)) \<longrightarrow> windSpeed (fs ! i) = []) \<and>
            (\<forall>xs e ys tse.
               e0 # others = xs @ e # ys \<and> time e = Some tse \<and>
               (\<forall>y \<in> set ys. elementName y \<noteq> elementName e) \<longrightarrow>
                 (elementName e = ascii ''Wx'' \<longrightarrow>
                    weather (fs ! i) = parameterName (parameter (tse ! i))) \<and>
                 (elementName e = ascii ''PoP'' \<longrightarrow>
                    rain (fs ! i) = parameterName (parameter (tse ! i)) @ ascii ''%'') \<and>
                 (elementName e = ascii ''MinT'' \<longrightarrow>
                    minTemp (fs ! i) = parameterName (parameter (tse ! i)) @ degC) \<and>
                 (elementName e = ascii ''MaxT'' \<longrightarrow>
                    maxTemp (fs ! i) = parameterName (parameter (tse ! i)) @ degC) \<and>
                 (elementName e = ascii ''CI'' \<longrightarrow>
                    comfort (fs ! i) = parameterName (parameter (tse ! i))) \<and>
                 (elementName e = ascii ''WS'' \<longrightarrow>
                    windSpeed (fs ! i) = parameterName (parameter (tse ! i)))))))"
proof (intro conjI impI)
  show "parseWeatherElements None = Inr []"
    by (simp add: timeCount_zero timeCount_def)
  show "parseWeatherElements (Some []) = Inr []"
    by (simp add: timeCount_zero timeCount_def)
  show "parseWeatherElements (Some (e0 # others)) = Inr []"
    if "time e0 = None \<or> time e0 = Some []"
    using that by (auto simp: timeCount_zero timeCount_def)
next
  assume a: "time e0 = Some ts \<and> (\<forall>e \<in> set others. length ts \<le> time_length e)"
  then have len: "time_length e0 = length ts"
    by (simp add: time_length_def)
  with a obtain fs where fs: "parseWeatherElements (Some (e0 # others)) = Inr fs"
    using parse_Cons_total_iff[of e0 others] by auto
  have n: "length fs = length ts"
    using parse_Cons_length[OF fs] len by simp
  have body: "loop_body (Some (e0 # others)) i = Inr (fs ! i)" if "i < length ts" for i
    using that n parse_records(2)[OF fs] by simp
  let ?slot = "\<lambda>fs i.
        forecast.startTime (fs ! i) = time_entry.startTime (ts ! i) \<and>
        forecast.endTime (fs ! i) = time_entry.endTime (ts ! i) \<and>
        (\<not> present (ascii ''Wx'') (Some (e0 # others)) \<longrightarrow> weather (fs ! i) = []) \<and>
        (\<not> present (ascii ''PoP'') (Some (e0 # others)) \<longrightarrow> rain (fs ! i) = []) \<and>
        (\<not> present (ascii ''MinT'') (Some (e0 # others)) \<longrightarrow> minTemp (fs ! i) = []) \<and>
        (\<not> present (ascii ''MaxT'') (Some (e0 # others)) \<longrightarrow> maxTemp (fs ! i) = []) \<and>
        (\<not> present (ascii ''CI'') (Some (e0 # others)) \<longrightarrow> comfort (fs ! i) = []) \<and>
        (\<not> present (ascii ''WS'') (Some (e0 # others)) \<longrightarrow> windSpeed (fs ! i) = []) \<and>
        (\<forall>xs e ys tse.
           e0 # others = xs @ e # ys \<and> time e = Some tse \<and>
           (\<forall>y \<in> set ys. elementName y \<noteq> elementName e) \<longrightarrow>
             (elementName e = ascii ''Wx'' \<longrightarrow>
                weather (fs ! i) = parameterName (parameter (tse ! i))) \<and>
             (elementName e = ascii ''PoP'' \<longrightarrow>
                rain (fs ! i) = parameterName (parameter (tse ! i)) @ ascii ''%'') \<and>
             (elementName e = ascii ''MinT'' \<longrightarrow>
                minTemp (fs ! i) = parameterName (parameter (tse ! i)) @ degC) \<and>
             (elementName e = ascii ''MaxT'' \<longrightarrow>
                maxTemp (fs ! i) = parameterName (parameter (tse ! i)) @ degC) \<and>
             (elementName e = ascii ''CI'' \<longrightarrow>
                comfort (fs ! i) = parameterName (parameter (tse ! i))) \<and>
             (elementName e = ascii ''WS'' \<longrightarrow>
                windSpeed (fs ! i) = parameterName (parameter (tse ! i))))"
  have "?slot fs i"
    if i: "i < length ts" for i
  proof (intro conjI allI impI)
    note b = body[OF i]
    from a have t: "time e0 = Some ts" by simp
    show "forecast.startTime (fs ! i) = time_entry.startTime (ts ! i)"
      and "forecast.endTime (fs ! i) = time_entry.endTime (ts ! i)"
      using loop_body_times[OF b t] by simp_all
    show "weather (fs ! i) = []" if "\<not> present (ascii ''Wx'') (Some (e0 # others))"
      using loop_body_absent(1)[OF b that] .
    show "rain (fs ! i) = []" if "\<not> present (ascii ''PoP'') (Some (e0 # others))"
      using loop_body_absent(2)[OF b that] .
    show "minTemp (fs ! i) = []" if "\<not> present (ascii ''MinT'') (Some (e0 # others))"
      using loop_body_absent(3)[OF b that] .
    show "maxTemp (fs ! i) = []" if "\<not> present (ascii ''MaxT'') (Some (e0 # others))"
      using loop_body_absent(4)[OF b that] .
    show "comfort (fs ! i) = []" if "\<not> present (ascii ''CI'') (Some (e0 # others))"
      using loop_body_absent(5)[OF b that] .
    show "windSpeed (fs ! i) = []" if "\<not> present (ascii ''WS'') (Some (e0 # others))"
      using loop_body_absent(6)[OF b that] .
  next
    fix xs e ys tse
    assume h: "e0 # others = xs @ e # ys \<and> time e = Some tse \<and>
           (\<forall>y \<in> set ys. elementName y \<noteq> elementName e)"
    then have b: "loop_body (Some (xs @ e # ys)) i = Inr (fs ! i)"
      using body[OF i] by simp
    from h have te: "time e = Some tse" and ne: "\<forall>y \<in> set ys. elementName y \<noteq> elementName e"
      by simp_all
    note w = loop_body_written[OF b te ne]
    show "weather (fs ! i) = parameterName (parameter (tse ! i))"
      if "elementName e = ascii ''Wx''" using w that by blast
    show "rain (fs ! i) = parameterName (parameter (tse ! i)) @ ascii ''%''"
      if "elementName e = ascii ''PoP''" using w that by blast
    show "minTemp (fs ! i) = parameterName (parameter (tse ! i)) @ degC"
      if "elementName e = ascii ''MinT''" using w that by blast
    show "maxTemp (fs ! i) = parameterName (parameter (tse ! i)) @ degC"
      if "elementName e = ascii ''MaxT''" using w that by blast
    show "comfort (fs ! i) = parameterName (parameter (tse ! i))"
      if "elementName e = ascii ''CI''" using w that by blast
    show "windSpeed (fs ! i) = parameterName (parameter (tse ! i))"
      if "elementName e = ascii ''WS''" using w that by blast
  qed
  with fs n show "\<exists>fs. parseWeatherElements (Some (e0 # others)) = Inr fs \<and>
      length fs = length ts \<and> (\<forall>i < length ts. ?slot fs i)"
    by blast
qed

theorem reshaper_one_record_per_slot_witness:
  "time wx2 = Some [slot (ascii ''sunny''), evening_slot (ascii ''cloudy'')] \<and>
   time pop2 = Some [slot (ascii ''10''), evening_slot (ascii ''20'')] \<and>
   length [slot (ascii ''sunny''), evening_slot (ascii ''cloudy'')] \<le> time_length pop2 \<and>
   parseWeatherElements (Some [wx2, pop2]) = Inr [day_forecast, evening_forecast] \<and>
   length [day_forecast, evening_forecast] =
     length [slot (ascii ''sunny''), evening_slot (ascii ''cloudy'')] \<and>
   forecast.startTime day_forecast = time_entry.startTime (slot (ascii ''sunny'')) \<and>
   forecast.endTime day_forecast = time_entry.endTime (slot (ascii ''sunny'')) \<and>
   forecast.startTime evening_forecast = time_entry.startTime (evening_slot (ascii ''cloudy'')) \<and>
   forecast.endTime evening_forecast = time_entry.endTime (evening_slot (ascii ''cloudy'')) \<and>
   time_entry.startTime (slot (ascii ''sunny'')) \<noteq>
     time_entry.startTime (evening_slot (ascii ''cloudy'')) \<and>
   weather day_forecast = ascii ''sunny'' \<and> weather evening_forecast = ascii ''cloudy'' \<and>
   rain day_forecast = ascii ''10'' @ ascii ''%'' \<and>
   rain evening_forecast = ascii ''20'' @ ascii ''%'' \<and>
   \<not> present (ascii ''MinT'') (Some [wx2, pop2]) \<and> minTemp evening_forecast = []"
proof -
  let ?ts = "[slot (ascii ''sunny''), evening_slot (ascii ''cloudy'')]"
  let ?tp = "[slot (ascii ''10''), evening_slot (ascii ''20'')]"
  have t: "time wx2 = Some ?ts" and tp: "time pop2 = Some ?tp"
    by (simp_all add: wx2_def pop2_def)
  have l: "length ?ts \<le> time_length pop2"
    by (simp add: time_length_def pop2_def)
  then have pre: "time wx2 = Some ?ts \<and> (\<forall>e \<in> set [pop2]. length ?ts \<le> time_length e)"
    using t by simp
  have d: "time_entry.startTime (slot (ascii ''sunny'')) \<noteq>
     time_entry.startTime (evening_slot (ascii ''cloudy''))"
    by (simp add: slot_def evening_slot_def ascii_def)
  have m: "\<not> present (ascii ''MinT'') (Some [wx2, pop2])"
    by (simp add: present_def wx2_def pop2_def ascii_def)
  have k: "elementName wx2 = ascii ''Wx''" "elementName pop2 = ascii ''PoP''"
    "elementName pop2 \<noteq> elementName wx2"
    by (simp_all add: wx2_def pop2_def ascii_def)
  have s0: "[wx2, pop2] = [] @ wx2 # [pop2]" and s1: "[wx2, pop2] = [wx2] @ pop2 # []"
    by simp_all
  have v: "parameterName (parameter (?ts ! 0)) = ascii ''sunny''"
    "parameterName (parameter (?ts ! 1)) = ascii ''cloudy''"
    "parameterName (parameter (?tp ! 0)) = ascii ''10''"
    "parameterName (parameter (?tp ! 1)) = ascii ''20''"
    by (simp_all add: slot_def evening_slot_def)
  have i0: "(0::nat) < length ?ts" and i1: "(1::nat) < length ?ts"
    by simp_all
  have pick: "\<And>P a c. \<exists>fs. a = Inr fs \<and> P fs \<Longrightarrow> a = Inr c \<Longrightarrow> P c"
    by auto
  note main = reshaper_one_record_per_slot[where ?e0.0 = wx2 and others = "[pop2]" and ts = ?ts,
      THEN conjunct2, THEN conjunct2, THEN conjunct2, THEN mp, OF pre]
  note conc = pick[OF main parse_two_slots]
  note c0 = conc[THEN conjunct2, rule_format, OF i0]
  note c1 = conc[THEN conjunct2, rule_format, OF i1]
  note n = conc[THEN conjunct1]
  note last0 = c0[THEN conjunct2, THEN conjunct2, THEN conjunct2, THEN conjunct2,
      THEN conjunct2, THEN conjunct2, THEN conjunct2, THEN conjunct2, rule_format]
  note last1 = c1[THEN conjunct2, THEN conjunct2, THEN conjunct2, THEN conjunct2,
      THEN conjunct2, THEN conjunct2, THEN conjunct2, THEN conjunct2, rule_format]
  have h0: "[wx2, pop2] = [] @ wx2 # [pop2] \<and> time wx2 = Some ?ts \<and>
            (\<forall>y \<in> set [pop2]. elementName y \<noteq> elementName wx2)"
    and h1: "[wx2, pop2] = [wx2] @ pop2 # [] \<and> time pop2 = Some ?tp \<and>
            (\<forall>y \<in> set []. elementName y \<noteq> elementName pop2)"
    using t tp k by simp_all
  note w0 = last0[OF h0, THEN conjunct1, rule_format, OF k(1)]
  note w1 = last1[OF h0, THEN conjunct1, rule_format, OF k(1)]
  note r0 = last0[OF h1, THEN conjunct2, THEN conjunct1, rule_format, OF k(2)]
  note r1 = last1[OF h1, THEN conjunct2, THEN conjunct1, rule_format, OF k(2)]
  note st0 = c0[THEN conjunct1] and en0 = c0[THEN conjunct2, THEN conjunct1]
  note st1 = c1[THEN conjunct1] and en1 = c1[THEN conjunct2, THEN conjunct1]
  note mt1 = c1[THEN conjunct2, THEN conjunct2, THEN conjunct2, THEN conjunct2,
      THEN conjunct1, rule_format, OF m]
  show ?thesis
    using t tp l parse_two_slots n st0 en0 st1 en1 d w0 w1 r0 r1 m mt1 v
    by simp
qed

text \<open>
  Claim C3, as stated, fails: a suffix is appended to three fields, not two. With
  \<^verbatim>\<open>PoP\<close>, \<^verbatim>\<open>MinT\<close> and \<^verbatim>\<open>MaxT\<close> all of value \<^verbatim>\<open>"1"\<close>, the fields \<^verbatim>\<open>rain\<close>,
  \<^verbatim>\<open>minTemp\<close> and \<^verbatim>\<open>maxTemp\<close> all differ from \<^verbatim>\<open>"1"\<close>.
\<close>

theorem suffixes_on_three_fields_counterexample:
  "parseWeatherElements (Some [pop1, minT1, maxT1]) = Inr [three_suffixed_forecast] \<and>
   rain three_suffixed_forecast = ascii ''1%'' \<and>
   minTemp three_suffixed_forecast = ascii ''1'' @ degC \<and>
   maxTemp three_suffixed_forecast = ascii ''1'' @ degC \<and>
   rain three_suffixed_forecast \<noteq> ascii ''1'' \<and>
   minTemp three_suffixed_forecast \<noteq> ascii ''1'' \<and>
   maxTemp three_suffixed_forecast \<noteq> ascii ''1''"
  by (simp add: parse_three_suffixed) (simp add: three_suffixed_forecast_def ascii_def degC_def)

text \<open>
  Claim C3, amended. In every record, the field of a kind is written from the last
  element of that kind: \<^verbatim>\<open>rain\<close> is the value followed by \<^verbatim>\<open>"%"\<close>, \<^verbatim>\<open>minTemp\<close> and
  \<^verbatim>\<open>maxTemp\<close> are the value followed by \<^verbatim>\<open>"\<degree>C"\<close>, and \<^verbatim>\<open>weather\<close>,
  \<^verbatim>\<open>comfort\<close> and \<^verbatim>\<open>windSpeed\<close> are the value unchanged. A single \<^verbatim>\<open>MinT\<close> element
  of value \<^verbatim>\<open>"20"\<close> at one slot gives one record with \<^verbatim>\<open>minTemp\<close> \<^verbatim>\<open>"20\<degree>C"\<close> and the
  other five weather fields empty.
\<close>

theorem suffixes_on_rain_and_both_temperatures:
  assumes "parseWeatherElements (Some (xs @ e # ys)) = Inr fs" and "i < length fs"
    and "time e = Some ts" and "\<forall>y \<in> set ys. elementName y \<noteq> elementName e"
  shows "(elementName e = ascii ''Wx'' \<longrightarrow>
            weather (fs ! i) = parameterName (parameter (ts ! i))) \<and>
         (elementName e = ascii ''PoP'' \<longrightarrow>
            rain (fs ! i) = parameterName (parameter (ts ! i)) @ ascii ''%'') \<and>
         (elementName e = ascii ''MinT'' \<longrightarrow>
            minTemp (fs ! i) = parameterName (parameter (ts ! i)) @ degC) \<and>
         (elementName e = ascii ''MaxT'' \<longrightarrow>
            maxTemp (fs ! i) = parameterName (parameter (ts ! i)) @ degC) \<and>
         (elementName e = ascii ''CI'' \<longrightarrow>
            comfort (fs ! i) = parameterName (parameter (ts ! i))) \<and>
         (elementName e = ascii ''WS'' \<longrightarrow>
            windSpeed (fs ! i) = parameterName (parameter (ts ! i))) \<and>
         parseWeatherElements
           (Some [\<lparr> elementName = ascii ''MinT'',
                    time = Some [\<lparr> time_entry.startTime = s, time_entry.endTime = t,
                                   parameter = \<lparr> parameterName = ascii ''20'' \<rparr> \<rparr>] \<rparr>]) =
         Inr [\<lparr> startTime = s, endTime = t, weather = [], rain = [],
                minTemp = ascii ''20'' @ degC, maxTemp = [], comfort = [], windSpeed = [] \<rparr>]"
proof -
  from assms(1,2) have "loop_body (Some (xs @ e # ys)) i = Inr (fs ! i)"
    using parse_records(2) by blast
  then obtain t0 where "forEach_element i (new_forecast t0) (xs @ e # ys) = Inr (fs ! i)"
    using loop_body_Some by blast
  then obtain g h where h: "apply_element i g e = Inr h"
    and rest: "forEach_element i h ys = Inr (fs ! i)"
    by (rule forEach_element_last)
  note sets = apply_element_sets[OF h assms(3)]
  note keeps = forEach_element_absent[OF rest]
  have "parseWeatherElements
           (Some [\<lparr> elementName = ascii ''MinT'',
                    time = Some [\<lparr> time_entry.startTime = s, time_entry.endTime = t,
                                   parameter = \<lparr> parameterName = ascii ''20'' \<rparr> \<rparr>] \<rparr>]) =
         Inr [\<lparr> startTime = s, endTime = t, weather = [], rain = [],
                minTemp = ascii ''20'' @ degC, maxTemp = [], comfort = [], windSpeed = [] \<rparr>]"
    by (simp add: reshaper_defs)
  moreover have "weather (fs ! i) = parameterName (parameter (ts ! i))"
    if "elementName e = ascii ''Wx''"
    using that sets(1) keeps(1) assms(4) by simp
  moreover have "rain (fs ! i) = parameterName (parameter (ts ! i)) @ ascii ''%''"
    if "elementName e = ascii ''PoP''"
    using that sets(2) keeps(2) assms(4) by simp
  moreover have "minTemp (fs ! i) = parameterName (parameter (ts ! i)) @ degC"
    if "elementName e = ascii ''MinT''"
    using that sets(3) keeps(3) assms(4) by simp
  moreover have "maxTemp (fs ! i) = parameterName (parameter (ts ! i)) @ degC"
    if "elementName e = ascii ''MaxT''"
    using that sets(4) keeps(4) assms(4) by simp
  moreover have "comfort (fs ! i) = parameterName (parameter (ts ! i))"
    if "elementName e = ascii ''CI''"
    using that sets(5) keeps(5) assms(4) by simp
  moreover have "windSpeed (fs ! i) = parameterName (parameter (ts ! i))"
    if "elementName e = ascii ''WS''"
    using that sets(6) keeps(6) assms(4) by simp
  ultimately show ?thesis by blast
qed

theorem suffixes_on_rain_and_both_temperatures_witness:
  "parseWeatherElements (Some ([pop1] @ minT1 # [maxT1])) = Inr [three_suffixed_forecast] \<and>
   (0 :: nat) < length [three_suffixed_forecast] \<and>
   time minT1 = Some [slot (ascii ''1'')] \<and>
   elementName maxT1 \<noteq> elementName minT1 \<and>
   elementName minT1 = ascii ''MinT'' \<and>
   minTemp ([three_suffixed_forecast] ! 0) = parameterName (parameter ([slot (ascii ''1'')] ! 0)) @ degC"
proof -
  have p: "parseWeatherElements (Some ([pop1] @ minT1 # [maxT1])) = Inr [three_suffixed_forecast]"
    using parse_three_suffixed by simp
  have l: "(0 :: nat) < length [three_suffixed_forecast]" by simp
  have t: "time minT1 = Some [slot (ascii ''1'')]" by (simp add: minT1_def)
  have n: "elementName maxT1 \<noteq> elementName minT1"
    by (simp add: minT1_def maxT1_def ascii_def)
  then have d: "\<forall>y \<in> set [maxT1]. elementName y \<noteq> elementName minT1" by simp
  have k: "elementName minT1 = ascii ''MinT''" by (simp add: minT1_def)
  show ?thesis
    using suffixes_on_rain_and_both_temperatures[OF p l t d] p l t n k by blast
qed

text \<open>
  Claim C4, as stated, fails twice. An unrecognized element with a time array shorter
  than \<open>timeCount\<close> makes the reshaper raise; and an unrecognized element at the head of
  the array supplies \<^verbatim>\<open>startTime\<close> and \<^verbatim>\<open>endTime\<close>, so its presence changes output fields.
\<close>

theorem unrecognized_elements_ignored_counterexample:
  "\<not> recognized (elementName uvi_empty) \<and> \<not> recognized (elementName uvi_night) \<and>
   parseWeatherElements (Some [wx]) = Inr [wx_forecast] \<and>
   parseWeatherElements (Some [wx, uvi_empty]) = Inl TypeError \<and>
   parseWeatherElements (Some [uvi_night, wx]) =
     Inr [wx_forecast\<lparr>startTime := ascii ''18:00'', endTime := ascii ''06:00''\<rparr>] \<and>
   wx_forecast\<lparr>startTime := ascii ''18:00'', endTime := ascii ''06:00''\<rparr> \<noteq> wx_forecast"
  by (simp add: reshaper_defs example_defs recognized_def)

text \<open>
  Claim C4, amended. Elements of unrecognized kind after the first element, each with at
  least \<open>timeCount\<close> time entries, are ignored: the result, records or exception, is that
  of the array without them.
\<close>

theorem unrecognized_elements_ignored:
  assumes "\<forall>u \<in> set es. \<not> recognized (elementName u) \<longrightarrow> timeCount (Some (e0 # es)) \<le> time_length u"
  shows "parseWeatherElements (Some (e0 # es)) =
         parseWeatherElements (Some (e0 # filter (\<lambda>e. recognized (elementName e)) es))"
proof -
  let ?known = "filter (\<lambda>e. recognized (elementName e)) es"
  have n: "timeCount (Some (e0 # ?known)) = timeCount (Some (e0 # es))"
    by (simp add: timeCount_Cons)
  have "loop_body (Some (e0 # es)) j = loop_body (Some (e0 # ?known)) j"
    if "j < timeCount (Some (e0 # es))" for j
  proof -
    have t: "first_time_entry (Some (e0 # es)) j = first_time_entry (Some (e0 # ?known)) j"
      by (simp add: first_time_entry_def)
    have "\<forall>u \<in> set es. \<not> recognized (elementName u) \<longrightarrow> j < time_length u"
      using assms that by fastforce
    then have "forEach_element j f es = forEach_element j f ?known" for f
      by (rule forEach_element_filter)
    then show ?thesis
      by (simp add: loop_body_def t split: sum.splits)
  qed
  then have "parse_loop (Some (e0 # es)) (timeCount (Some (e0 # es))) 0 [] =
             parse_loop (Some (e0 # ?known)) (timeCount (Some (e0 # es))) 0 []"
    by (intro parse_loop_cong) simp
  then show ?thesis
    by (simp add: parseWeatherElements_def n)
qed

theorem unrecognized_elements_ignored_witness:
  "\<not> recognized (elementName uvi) \<and> timeCount (Some [wx, uvi]) \<le> time_length uvi \<and>
   filter (\<lambda>e. recognized (elementName e)) [uvi] = [] \<and>
   parseWeatherElements (Some [wx, uvi]) = parseWeatherElements (Some [wx]) \<and>
   parseWeatherElements (Some [wx]) = Inr [wx_forecast]"
proof -
  have u: "\<not> recognized (elementName uvi)"
    by (simp add: recognized_def uvi_def ascii_def)
  have n: "timeCount (Some [wx, uvi]) \<le> time_length uvi"
    by (simp add: timeCount_def time_length_def example_defs)
  then have pre: "\<forall>u \<in> set [uvi]. \<not> recognized (elementName u) \<longrightarrow>
                    timeCount (Some (wx # [uvi])) \<le> time_length u"
    by simp
  have f: "filter (\<lambda>e. recognized (elementName e)) [uvi] = []"
    using u by simp
  have p: "parseWeatherElements (Some [wx]) = Inr [wx_forecast]"
    by (simp add: reshaper_defs example_defs)
  show ?thesis
    using unrecognized_elements_ignored[OF pre] u n f p by simp
qed

text \<open>
  Claim C9. The reshaper returns exactly when every element after the first, whatever
  its kind, has at least as many time entries as the first element, a missing \<^verbatim>\<open>time\<close>
  counting as none; when some element has fewer, it raises \<^verbatim>\<open>TypeError\<close>, since the
  callback reads \<^verbatim>\<open>element.time[i].parameter\<close> before it looks at the kind. An
  \<^verbatim>\<open>undefined\<close> or empty array gives the empty sequence.
\<close>

theorem reshaper_total_iff_time_arrays_long_enough:
  "parseWeatherElements None = Inr [] \<and>
   parseWeatherElements (Some []) = Inr [] \<and>
   ((\<exists>fs. parseWeatherElements (Some (e0 # others)) = Inr fs) \<longleftrightarrow>
      (\<forall>e \<in> set others. time_length e0 \<le> time_length e)) \<and>
   (parseWeatherElements (Some (e0 # others)) = Inl TypeError \<longleftrightarrow>
      (\<exists>e \<in> set others. time_length e < time_length e0))"
proof -
  have total: "(\<exists>fs. parseWeatherElements (Some (e0 # others)) = Inr fs) \<longleftrightarrow>
      (\<forall>e \<in> set others. time_length e0 \<le> time_length e)"
    by (rule parse_Cons_total_iff)
  have "parseWeatherElements (Some (e0 # others)) = Inl TypeError \<longleftrightarrow>
      \<not> (\<exists>fs. parseWeatherElements (Some (e0 # others)) = Inr fs)"
    using parse_Inl by (cases "parseWeatherElements (Some (e0 # others))") auto
  also have "\<dots> \<longleftrightarrow> (\<exists>e \<in> set others. time_length e < time_length e0)"
    using total by (auto simp: not_le)
  finally have raises: "parseWeatherElements (Some (e0 # others)) = Inl TypeError \<longleftrightarrow>
      (\<exists>e \<in> set others. time_length e < time_length e0)" .
  have "parseWeatherElements None = Inr []" "parseWeatherElements (Some []) = Inr []"
    by (simp_all add: timeCount_zero timeCount_def)
  with total raises show ?thesis by blast
qed

theorem reshaper_total_iff_time_arrays_long_enough_witness:
  "time_length wx2 = 2 \<and> time_length pop2 = 2 \<and>
   parseWeatherElements (Some [wx2, pop2]) = Inr [day_forecast, evening_forecast] \<and>
   time_length pop1 = 1 \<and> parseWeatherElements (Some [wx2, pop1]) = Inl TypeError \<and>
   \<not> recognized (elementName uvi) \<and> time_length uvi = 1 \<and>
   parseWeatherElements (Some [wx2, uvi]) = Inl TypeError \<and>
   time_length wx = 1 \<and> (\<exists>fs. parseWeatherElements (Some [wx, uvi]) = Inr fs) \<and>
   time_length uvi_empty = 0 \<and> parseWeatherElements (Some [wx, uvi_empty]) = Inl TypeError \<and>
   time_length pop_no_time = 0 \<and> parseWeatherElements (Some [wx, pop_no_time]) = Inl TypeError"
proof -
  have n: "time_length wx2 = 2" "time_length pop2 = 2" "time_length pop1 = 1"
    "time_length uvi = 1" "time_length wx = 1" "time_length uvi_empty = 0"
    "time_length pop_no_time = 0"
    by (simp_all add: time_length_def example_defs two_slot_defs)
  have u: "\<not> recognized (elementName uvi)"
    by (simp add: recognized_def uvi_def ascii_def)
  have a: "\<exists>e \<in> set [pop1]. time_length e < time_length wx2"
    and b: "\<exists>e \<in> set [uvi]. time_length e < time_length wx2"
    and c: "\<forall>e \<in> set [uvi]. time_length wx \<le> time_length e"
    and d: "\<exists>e \<in> set [uvi_empty]. time_length e < time_length wx"
    and e: "\<exists>e \<in> set [pop_no_time]. time_length e < time_length wx"
    using n by simp_all
  show ?thesis
    using reshaper_total_iff_time_arrays_long_enough[of wx2 "[pop1]"] reshaper_total_iff_time_arrays_long_enough[of wx2 "[uvi]"] reshaper_total_iff_time_arrays_long_enough[of wx "[uvi]"]
      reshaper_total_iff_time_arrays_long_enough[of wx "[uvi_empty]"] reshaper_total_iff_time_arrays_long_enough[of wx "[pop_no_time]"]
      a b c d e n u parse_two_slots
    by blast
qed

section \<open>The handlers\<close>

lemmas handler_defs =
  getCityWeather_def getKaohsiungWeather_def getAllCityWeather_def fetchWeatherDataset_def
  respond_first_def respond_all_def buildLocationWeather_def catch_block_def

lemma sublist_prepend: "sublist x ys \<Longrightarrow> sublist x (ps @ ys)"
  unfolding sublist_def by (metis append_assoc)

lemma sublist_join: "x \<in> set xs \<Longrightarrow> sublist x (join sep xs)"
proof (induction sep xs rule: join.induct)
  case (1 sep)
  then show ?case by simp
next
  case (2 sep y)
  then show ?case by simp
next
  case (3 sep y z zs)
  show ?case
  proof (cases "x = y")
    case True
    then show ?thesis by (simp add: sublist_append_rightI)
  next
    case False
    then have "sublist x (join sep (z # zs))" using 3 by simp
    then have "sublist x ((y @ sep) @ join sep (z # zs))"
      by (rule sublist_prepend)
    then show ?thesis by simp
  qed
qed

lemma catch_block_not_validation: "catch_block err \<noteq> validation_error_response"
  by (simp add: catch_block_def validation_error_response_def generic_error_response_def
      ascii_def split: thrown.splits option.splits)

lemma respond_first_not_validation:
  "respond_first msg result = Inr r \<Longrightarrow> r \<noteq> validation_error_response"
  by (auto simp: respond_first_def not_found_response_def validation_error_response_def
      split: axios_result.splits option.splits list.splits sum.splits)

lemma config_error_not_validation: "config_error_response \<noteq> validation_error_response"
  by (simp add: config_error_response_def validation_error_response_def)

lemma catch_block_response:
  "catch_block (Axios_error (Some r)) =
     \<lparr> status = error_response.status r,
       body = Error_body
         \<lparr> error = ascii ''CWA API '' @ [0x932F, 0x8AA4],
           message = or_else (upstream_error_data.message (data r))
             [0x7121, 0x6CD5, 0x53D6, 0x5F97, 0x5929, 0x6C23, 0x8CC7, 0x6599],
           details = Some (data r) \<rparr> \<rparr>"
  by (simp add: catch_block_def)

lemma catch_block_no_response: "catch_block (Axios_error None) = generic_error_response"
  by (simp add: catch_block_def)

lemma respond_first_Rejected: "respond_first msg (Rejected r) = Inl (Axios_error r)"
  by (simp add: respond_first_def)

lemma respond_all_Rejected: "respond_all (Rejected r) = Inl (Axios_error r)"
  by (simp add: respond_all_def)

lemma requested_city:
  assumes "n \<in> set (requests (getCityWeather d cfg up p))"
  shows "\<exists>msg. getCityWeather d cfg up p =
           \<lparr> response = (case respond_first msg (up (CWA_API_KEY cfg) n) of
                           Inl err \<Rightarrow> catch_block err | Inr r \<Rightarrow> r),
             requests = [n] \<rparr>"
proof -
  from assms have "\<not> falsy (CWA_API_KEY cfg)" and "d (or_else p []) = Inr n"
    and "n \<in> set ALLOWED_CITY_NAMES"
    by (auto simp: getCityWeather_def split: if_splits sum.splits)
  then have "getCityWeather d cfg up p =
           \<lparr> response =
               (case respond_first
                       ([0x7121, 0x6CD5, 0x53D6, 0x5F97, 0x0020] @ n
                          @ [0x0020, 0x5929, 0x6C23, 0x8CC7, 0x6599])
                       (up (CWA_API_KEY cfg) n) of
                  Inl err \<Rightarrow> catch_block err | Inr r \<Rightarrow> r),
             requests = [n] \<rparr>"
    by (simp add: getCityWeather_def fetchWeatherDataset_def)
  then show ?thesis by (rule exI)
qed

lemma requested_kaohsiung:
  assumes "n \<in> set (requests (getKaohsiungWeather cfg up))"
  shows "\<exists>msg. getKaohsiungWeather cfg up =
           \<lparr> response = (case respond_first msg (up (CWA_API_KEY cfg) n) of
                           Inl err \<Rightarrow> catch_block err | Inr r \<Rightarrow> r),
             requests = [n] \<rparr>"
  using assms
  by (auto simp: getKaohsiungWeather_def fetchWeatherDataset_def split: if_splits)

lemma requested_all:
  assumes "n \<in> set (requests (getAllCityWeather cfg up))"
  shows "getAllCityWeather cfg up =
           \<lparr> response = (case respond_all (up (CWA_API_KEY cfg) n) of
                           Inl err \<Rightarrow> catch_block err | Inr r \<Rightarrow> r),
             requests = [n] \<rparr>"
  using assms
  by (auto simp: getAllCityWeather_def fetchWeatherDataset_def split: if_splits)

lemma buildLocationWeather_Inl:
  "buildLocationWeather l d = Inl err \<longleftrightarrow> parseWeatherElements (weatherElement l) = Inl err"
  by (simp add: buildLocationWeather_def split: sum.splits)

lemma map_locations_Inr:
  "\<forall>l \<in> set ls. \<exists>fs. parseWeatherElements (weatherElement l) = Inr fs \<Longrightarrow>
     \<exists>ws. map_locations d ls = Inr ws \<and> length ws = length ls \<and>
       (\<forall>i < length ls. city (ws ! i) = locationName (ls ! i) \<and> updateTime (ws ! i) = d \<and>
          parseWeatherElements (weatherElement (ls ! i)) = Inr (forecasts (ws ! i)))"
proof (induction ls)
  case Nil
  then show ?case by simp
next
  case (Cons l ls)
  then obtain fs where fs: "parseWeatherElements (weatherElement l) = Inr fs"
    by auto
  from Cons obtain ws where ws: "map_locations d ls = Inr ws" "length ws = length ls"
    "\<forall>i < length ls. city (ws ! i) = locationName (ls ! i) \<and> updateTime (ws ! i) = d \<and>
          parseWeatherElements (weatherElement (ls ! i)) = Inr (forecasts (ws ! i))"
    by auto
  let ?w = "\<lparr> city = locationName l, updateTime = d, forecasts = fs \<rparr>"
  have m: "map_locations d (l # ls) = Inr (?w # ws)"
    using fs ws(1) by (simp add: buildLocationWeather_def)
  have "city ((?w # ws) ! i) = locationName ((l # ls) ! i) \<and> updateTime ((?w # ws) ! i) = d \<and>
          parseWeatherElements (weatherElement ((l # ls) ! i)) = Inr (forecasts ((?w # ws) ! i))"
    if "i < length (l # ls)" for i
  proof (cases i)
    case 0
    then show ?thesis using fs by simp
  next
    case (Suc k)
    then have "k < length ls" using that by simp
    then show ?thesis using ws(3) Suc by simp
  qed
  with m ws(2) show ?case by auto
qed

lemma map_locations_Inl:
  "\<exists>l \<in> set ls. \<exists>err. parseWeatherElements (weatherElement l) = Inl err \<Longrightarrow>
     \<exists>err. map_locations d ls = Inl err"
proof (induction ls)
  case Nil
  then show ?case by simp
next
  case (Cons l ls)
  show ?case
  proof (cases "buildLocationWeather l d")
    case (Inl err)
    then show ?thesis by simp
  next
    case (Inr w)
    then have "\<not> (\<exists>err. parseWeatherElements (weatherElement l) = Inl err)"
      using buildLocationWeather_Inl[of l d] by auto
    with Cons.prems have "\<exists>l \<in> set ls. \<exists>err. parseWeatherElements (weatherElement l) = Inl err"
      by auto
    then obtain err where "map_locations d ls = Inl err"
      using Cons.IH by blast
    with Inr show ?thesis by simp
  qed
qed

lemma kaohsiung_allowed: "kaohsiung \<in> set ALLOWED_CITY_NAMES"
  by (simp add: kaohsiung_def ALLOWED_CITY_NAMES_def)

lemma taipei_allowed: "taipei \<in> set ALLOWED_CITY_NAMES"
  by (simp add: taipei_def ALLOWED_CITY_NAMES_def)

lemma not_allowed:
  "[] \<notin> set ALLOWED_CITY_NAMES" "atlantis \<notin> set ALLOWED_CITY_NAMES"
  "taipei_variant \<notin> set ALLOWED_CITY_NAMES"
  by (simp_all add: ALLOWED_CITY_NAMES_def atlantis_def taipei_variant_def ascii_def)

lemma configured_truthy: "\<not> falsy (CWA_API_KEY configured)"
  by (simp add: configured_def falsy_def ascii_def)

lemma or_else_examples:
  "or_else (Some kaohsiung) [] = kaohsiung" "or_else (Some taipei) [] = taipei"
  by (simp_all add: or_else_def kaohsiung_def taipei_def)

lemma parse_wx_uvi: "parseWeatherElements (Some [wx, uvi]) = Inr [wx_forecast]"
  by (simp add: reshaper_defs example_defs)

lemma parse_wx: "parseWeatherElements (Some [wx]) = Inr [wx_forecast]"
  by (simp add: reshaper_defs example_defs)

lemma parse_wx_pop_no_time: "parseWeatherElements (Some [wx, pop_no_time]) = Inl TypeError"
  by (simp add: reshaper_defs example_defs)


section \<open>Claims about the handlers\<close>

text \<open>
  Claim C5, as stated, fails: the check of the API key comes before the check of the
  name, so without a key a name outside the allow-list gets the 500 of the configuration
  error, not the 400.
\<close>

theorem validation_after_configuration_counterexample:
  "atlantis \<notin> set ALLOWED_CITY_NAMES \<and>
   getCityWeather Inr unconfigured no_network (Some atlantis) =
     \<lparr> response = config_error_response, requests = [] \<rparr> \<and>
   status config_error_response = 500"
  by (simp add: not_allowed getCityWeather_def unconfigured_def falsy_def config_error_response_def)

text \<open>
  Claim C5, amended. Whatever the configuration and the upstream, a request whose decoded
  name is in the allow-list of 22 names is never answered with the validation error. When
  the API key is set, a request whose decoded name is not in the allow-list (the empty
  string of a missing parameter included) is answered with status 400 and a message in
  which every name of the allow-list occurs, and no upstream request is issued.
\<close>

theorem allow_list_validation:
  "(decodeURIComponent (or_else param []) = Inr name \<and> name \<in> set ALLOWED_CITY_NAMES \<longrightarrow>
      response (getCityWeather decodeURIComponent cfg up param) \<noteq> validation_error_response) \<and>
   (\<not> falsy (CWA_API_KEY cfg) \<and> decodeURIComponent (or_else param []) = Inr name \<and>
    name \<notin> set ALLOWED_CITY_NAMES \<longrightarrow>
      getCityWeather decodeURIComponent cfg up param =
        \<lparr> response = validation_error_response, requests = [] \<rparr>) \<and>
   status validation_error_response = 400 \<and>
   (\<forall>n \<in> set ALLOWED_CITY_NAMES. sublist n (message_of validation_error_response)) \<and>
   length ALLOWED_CITY_NAMES = 22"
proof (intro conjI impI)
  assume a: "decodeURIComponent (or_else param []) = Inr name \<and> name \<in> set ALLOWED_CITY_NAMES"
  show "response (getCityWeather decodeURIComponent cfg up param) \<noteq> validation_error_response"
  proof (cases "falsy (CWA_API_KEY cfg)")
    case True
    then show ?thesis
      by (simp add: getCityWeather_def config_error_not_validation)
  next
    case False
    with a show ?thesis
      by (auto simp: getCityWeather_def catch_block_not_validation
          split: sum.splits dest: respond_first_not_validation)
  qed
next
  assume "\<not> falsy (CWA_API_KEY cfg) \<and> decodeURIComponent (or_else param []) = Inr name \<and>
    name \<notin> set ALLOWED_CITY_NAMES"
  then show "getCityWeather decodeURIComponent cfg up param =
        \<lparr> response = validation_error_response, requests = [] \<rparr>"
    by (simp add: getCityWeather_def)
next
  show "status validation_error_response = 400"
    by (simp add: validation_error_response_def)
  show "\<forall>n \<in> set ALLOWED_CITY_NAMES. sublist n (message_of validation_error_response)"
  proof
    fix n assume "n \<in> set ALLOWED_CITY_NAMES"
    then have "sublist n (join [0x3001] ALLOWED_CITY_NAMES)"
      by (rule sublist_join)
    then have "sublist n
        ([0x8ACB, 0x4F7F, 0x7528, 0x4EE5, 0x4E0B, 0x7E23, 0x5E02, 0x540D, 0x7A31, 0xFF1A]
           @ join [0x3001] ALLOWED_CITY_NAMES)"
      by (rule sublist_prepend)
    then show "sublist n (message_of validation_error_response)"
      by (simp add: message_of_def validation_error_response_def)
  qed
  show "length ALLOWED_CITY_NAMES = 22"
    by (simp add: ALLOWED_CITY_NAMES_def)
qed

theorem allow_list_validation_witness:
  "kaohsiung \<in> set ALLOWED_CITY_NAMES \<and>
   response (getCityWeather Inr configured no_network (Some kaohsiung)) \<noteq> validation_error_response \<and>
   response (getCityWeather Inr unconfigured no_network (Some kaohsiung)) \<noteq> validation_error_response \<and>
   \<not> falsy (CWA_API_KEY configured) \<and>
   [] \<notin> set ALLOWED_CITY_NAMES \<and>
   getCityWeather Inr configured no_network None =
     \<lparr> response = validation_error_response, requests = [] \<rparr> \<and>
   taipei_variant \<notin> set ALLOWED_CITY_NAMES \<and>
   getCityWeather Inr configured no_network (Some taipei_variant) =
     \<lparr> response = validation_error_response, requests = [] \<rparr> \<and>
   sublist kaohsiung (message_of validation_error_response)"
proof -
  have k: "Inr (or_else (Some kaohsiung) []) = (Inr kaohsiung :: js_error + jsstring)"
    by (simp add: or_else_def kaohsiung_def)
  have e: "Inr (or_else None []) = (Inr [] :: js_error + jsstring)"
    by (simp add: or_else_def)
  have t: "Inr (or_else (Some taipei_variant) []) = (Inr taipei_variant :: js_error + jsstring)"
    by (simp add: or_else_def taipei_variant_def)
  show ?thesis
    using allow_list_validation[of Inr "Some kaohsiung" kaohsiung configured no_network]
      allow_list_validation[of Inr "Some kaohsiung" kaohsiung unconfigured no_network]
      allow_list_validation[of Inr None "[]" configured no_network]
      allow_list_validation[of Inr "Some taipei_variant" taipei_variant configured no_network]
      k e t kaohsiung_allowed not_allowed configured_truthy
    by blast
qed

text \<open>
  Claim C6. When the API key is unset (or empty), the three data endpoints answer with
  the fixed configuration error of status 500 and issue no upstream request, while the
  root and health endpoints answer with status 200.
\<close>

theorem missing_key_gives_configuration_error:
  assumes "falsy (CWA_API_KEY cfg)"
  shows "app d cfg up now (Get_city p) = \<lparr> response = config_error_response, requests = [] \<rparr> \<and>
         app d cfg up now Get_kaohsiung = \<lparr> response = config_error_response, requests = [] \<rparr> \<and>
         app d cfg up now Get_all = \<lparr> response = config_error_response, requests = [] \<rparr> \<and>
         status config_error_response = 500 \<and>
         app d cfg up now Get_root = \<lparr> response = root_response, requests = [] \<rparr> \<and>
         status root_response = 200 \<and>
         app d cfg up now Get_health = \<lparr> response = health_response now, requests = [] \<rparr> \<and>
         status (health_response now) = 200"
  using assms
  by (simp add: app_def getCityWeather_def getKaohsiungWeather_def getAllCityWeather_def
      config_error_response_def root_response_def health_response_def)

theorem missing_key_gives_configuration_error_witness:
  "falsy (CWA_API_KEY unconfigured) \<and> falsy (CWA_API_KEY empty_key) \<and>
   app Inr unconfigured no_network [] (Get_city (Some kaohsiung)) =
     \<lparr> response = config_error_response, requests = [] \<rparr> \<and>
   app Inr unconfigured no_network [] Get_kaohsiung =
     \<lparr> response = config_error_response, requests = [] \<rparr> \<and>
   app Inr empty_key no_network [] Get_all =
     \<lparr> response = config_error_response, requests = [] \<rparr> \<and>
   status (response (app Inr unconfigured no_network [] Get_root)) = 200 \<and>
   status (response (app Inr unconfigured no_network [] Get_health)) = 200"
proof -
  have f: "falsy (CWA_API_KEY unconfigured)" "falsy (CWA_API_KEY empty_key)"
    by (simp_all add: falsy_def unconfigured_def empty_key_def)
  show ?thesis
    using missing_key_gives_configuration_error[OF f(1), of Inr no_network "[]" "Some kaohsiung"]
      missing_key_gives_configuration_error[OF f(2), of Inr no_network "[]" "Some kaohsiung"] f
    by simp
qed

text \<open>
  Claim C7, as stated, fails: without an API key the handler fetches nothing, and with a
  key and a non-empty list of locations it answers 500 instead of success when the
  reshaper raises on one of them.
\<close>

theorem all_regions_handler_counterexample:
  "getAllCityWeather unconfigured (upstream_of (Some [wx_location])) =
     \<lparr> response = config_error_response, requests = [] \<rparr> \<and>
   \<not> falsy (CWA_API_KEY configured) \<and>
   getAllCityWeather configured (upstream_of (Some [wx_location, ragged_location])) =
     \<lparr> response = generic_error_response, requests = [[]] \<rparr> \<and>
   status generic_error_response = 500"
  using configured_truthy
  by (simp add: handler_defs upstream_of_def wx_location_def ragged_location_def parse_wx
      parse_wx_pop_no_time unconfigured_def falsy_def generic_error_response_def)

text \<open>
  Claim C7, amended. With the API key set and the upstream resolving, the handler of all
  regions issues exactly one request, with the empty filter. When \<^verbatim>\<open>location\<close> is
  missing or empty it answers 404. When it is not empty and the reshaper returns on every
  location, it answers 200 with one record per location, in the upstream's order, record
  \<open>i\<close> carrying the name of location \<open>i\<close>, the dataset description as \<^verbatim>\<open>updateTime\<close> and
  the reshaped elements of location \<open>i\<close>. When the reshaper raises on some location, it
  answers with the generic error of status 500.
\<close>

theorem all_regions_handler:
  assumes "\<not> falsy (CWA_API_KEY cfg)" and "up (CWA_API_KEY cfg) [] = Resolved recs"
  shows "requests (getAllCityWeather cfg up) = [[]] \<and>
         (location recs = None \<or> location recs = Some [] \<longrightarrow>
            status (response (getAllCityWeather cfg up)) = 404 \<and>
            response (getAllCityWeather cfg up) =
              not_found_response
                [0x7121, 0x6CD5, 0x53D6, 0x5F97, 0x5168, 0x7E23, 0x5E02, 0x5929, 0x6C23, 0x8CC7,
                 0x6599]) \<and>
         (location recs = Some ls \<and> ls \<noteq> [] \<and>
          (\<forall>l \<in> set ls. \<exists>fs. parseWeatherElements (weatherElement l) = Inr fs) \<longrightarrow>
            (\<exists>ws. response (getAllCityWeather cfg up) =
                     \<lparr> status = 200, body = Success_body (Multiple ws) \<rparr> \<and>
                   length ws = length ls \<and>
                   (\<forall>i < length ls.
                      city (ws ! i) = locationName (ls ! i) \<and>
                      updateTime (ws ! i) = datasetDescription recs \<and>
                      parseWeatherElements (weatherElement (ls ! i)) =
                        Inr (forecasts (ws ! i))))) \<and>
         (location recs = Some ls \<and>
          (\<exists>l \<in> set ls. \<exists>err. parseWeatherElements (weatherElement l) = Inl err) \<longrightarrow>
            response (getAllCityWeather cfg up) = generic_error_response)"
proof (intro conjI impI)
  show "requests (getAllCityWeather cfg up) = [[]]"
    using assms(1) by (simp add: getAllCityWeather_def)
next
  assume "location recs = None \<or> location recs = Some []"
  then have r: "response (getAllCityWeather cfg up) =
              not_found_response
                [0x7121, 0x6CD5, 0x53D6, 0x5F97, 0x5168, 0x7E23, 0x5E02, 0x5929, 0x6C23, 0x8CC7,
                 0x6599]"
    using assms
    by (auto simp: getAllCityWeather_def fetchWeatherDataset_def respond_all_def)
  then show "status (response (getAllCityWeather cfg up)) = 404"
    by (simp add: not_found_response_def)
  from r show "response (getAllCityWeather cfg up) =
              not_found_response
                [0x7121, 0x6CD5, 0x53D6, 0x5F97, 0x5168, 0x7E23, 0x5E02, 0x5929, 0x6C23, 0x8CC7,
                 0x6599]" .
next
  assume a: "location recs = Some ls \<and> ls \<noteq> [] \<and>
          (\<forall>l \<in> set ls. \<exists>fs. parseWeatherElements (weatherElement l) = Inr fs)"
  then obtain ws where ws: "map_locations (datasetDescription recs) ls = Inr ws"
    "length ws = length ls"
    "\<forall>i < length ls. city (ws ! i) = locationName (ls ! i) \<and>
        updateTime (ws ! i) = datasetDescription recs \<and>
        parseWeatherElements (weatherElement (ls ! i)) = Inr (forecasts (ws ! i))"
    using map_locations_Inr[of ls "datasetDescription recs"] by blast
  have "response (getAllCityWeather cfg up) = \<lparr> status = 200, body = Success_body (Multiple ws) \<rparr>"
    using assms a ws(1)
    by (simp add: getAllCityWeather_def fetchWeatherDataset_def respond_all_def)
  with ws(2,3) show "\<exists>ws. response (getAllCityWeather cfg up) =
                     \<lparr> status = 200, body = Success_body (Multiple ws) \<rparr> \<and>
                   length ws = length ls \<and>
                   (\<forall>i < length ls.
                      city (ws ! i) = locationName (ls ! i) \<and>
                      updateTime (ws ! i) = datasetDescription recs \<and>
                      parseWeatherElements (weatherElement (ls ! i)) =
                        Inr (forecasts (ws ! i)))"
    by blast
next
  assume a: "location recs = Some ls \<and>
          (\<exists>l \<in> set ls. \<exists>err. parseWeatherElements (weatherElement l) = Inl err)"
  then obtain err where "map_locations (datasetDescription recs) ls = Inl err"
    using map_locations_Inl[of ls "datasetDescription recs"] by blast
  moreover from a have "ls \<noteq> []" by auto
  ultimately show "response (getAllCityWeather cfg up) = generic_error_response"
    using assms a
    by (simp add: getAllCityWeather_def fetchWeatherDataset_def respond_all_def catch_block_def)
qed

theorem all_regions_handler_witness:
  "\<not> falsy (CWA_API_KEY configured) \<and>
   getAllCityWeather configured (upstream_of (Some [taipei_location, wx_location])) =
     \<lparr> response =
         \<lparr> status = 200,
           body = Success_body (Multiple
             [\<lparr> city = taipei, updateTime = ascii ''36-hour forecast'', forecasts = [wx_forecast] \<rparr>,
              \<lparr> city = kaohsiung, updateTime = ascii ''36-hour forecast'',
                forecasts = [wx_forecast] \<rparr>]) \<rparr>,
       requests = [[]] \<rparr> \<and>
   requests (getAllCityWeather configured (upstream_of None)) = [[]] \<and>
   status (response (getAllCityWeather configured (upstream_of None))) = 404 \<and>
   status (response (getAllCityWeather configured (upstream_of (Some [])))) = 404"
proof -
  have s: "getAllCityWeather configured (upstream_of (Some [taipei_location, wx_location])) =
     \<lparr> response =
         \<lparr> status = 200,
           body = Success_body (Multiple
             [\<lparr> city = taipei, updateTime = ascii ''36-hour forecast'', forecasts = [wx_forecast] \<rparr>,
              \<lparr> city = kaohsiung, updateTime = ascii ''36-hour forecast'',
                forecasts = [wx_forecast] \<rparr>]) \<rparr>,
       requests = [[]] \<rparr>"
    using configured_truthy
    by (simp add: handler_defs upstream_of_def taipei_location_def wx_location_def parse_wx
        parse_wx_uvi)
  have n: "upstream_of None (CWA_API_KEY configured) [] =
             Resolved \<lparr> location = None, datasetDescription = ascii ''36-hour forecast'' \<rparr>"
    and e: "upstream_of (Some []) (CWA_API_KEY configured) [] =
             Resolved \<lparr> location = Some [], datasetDescription = ascii ''36-hour forecast'' \<rparr>"
    by (simp_all add: upstream_of_def)
  show ?thesis
    using all_regions_handler[where cfg = configured and up = "upstream_of None", OF configured_truthy n]
      all_regions_handler[where cfg = configured and up = "upstream_of (Some [])",
        OF configured_truthy e]
      configured_truthy s
    by (simp add: not_found_response_def)
qed

text \<open>
  Claim C8. Whenever one of the three handlers has asked the upstream, it has asked once.
  If the request was rejected with a response, the handler forwards that response's
  status and puts its body in \<^verbatim>\<open>details\<close>; if it was rejected without a response, the
  handler answers with the generic error, of status 500 and without \<^verbatim>\<open>details\<close>.
\<close>

theorem upstream_failures_distinguished:
  assumes "out = getCityWeather d cfg up p \<or> out = getKaohsiungWeather cfg up \<or>
           out = getAllCityWeather cfg up"
    and "n \<in> set (requests out)"
  shows "requests out = [n] \<and>
         (up (CWA_API_KEY cfg) n = Rejected (Some r) \<longrightarrow>
            response out =
              \<lparr> status = error_response.status r,
                body = Error_body
                  \<lparr> error = ascii ''CWA API '' @ [0x932F, 0x8AA4],
                    message = or_else (upstream_error_data.message (data r))
                      [0x7121, 0x6CD5, 0x53D6, 0x5F97, 0x5929, 0x6C23, 0x8CC7, 0x6599],
                    details = Some (data r) \<rparr> \<rparr>) \<and>
         (up (CWA_API_KEY cfg) n = Rejected None \<longrightarrow> response out = generic_error_response) \<and>
         status generic_error_response = 500 \<and>
         (\<exists>b. body generic_error_response = Error_body b \<and> details b = None)"
proof -
  have g: "status generic_error_response = 500 \<and>
         (\<exists>b. body generic_error_response = Error_body b \<and> details b = None)"
    by (simp add: generic_error_response_def)
  from assms(1) consider
    (city) "out = getCityWeather d cfg up p" |
    (kaohsiung) "out = getKaohsiungWeather cfg up" |
    (all) "out = getAllCityWeather cfg up"
    by blast
  then have "requests out = [n] \<and>
         (\<forall>r. up (CWA_API_KEY cfg) n = Rejected r \<longrightarrow> response out = catch_block (Axios_error r))"
  proof cases
    case city
    with assms(2) obtain msg where "out =
           \<lparr> response = (case respond_first msg (up (CWA_API_KEY cfg) n) of
                           Inl err \<Rightarrow> catch_block err | Inr r \<Rightarrow> r),
             requests = [n] \<rparr>"
      using requested_city by blast
    then show ?thesis by (simp add: respond_first_Rejected)
  next
    case kaohsiung
    with assms(2) obtain msg where "out =
           \<lparr> response = (case respond_first msg (up (CWA_API_KEY cfg) n) of
                           Inl err \<Rightarrow> catch_block err | Inr r \<Rightarrow> r),
             requests = [n] \<rparr>"
      using requested_kaohsiung by blast
    then show ?thesis by (simp add: respond_first_Rejected)
  next
    case all
    with assms(2) have "out =
           \<lparr> response = (case respond_all (up (CWA_API_KEY cfg) n) of
                           Inl err \<Rightarrow> catch_block err | Inr r \<Rightarrow> r),
             requests = [n] \<rparr>"
      using requested_all by blast
    then show ?thesis by (simp add: respond_all_Rejected)
  qed
  with g show ?thesis
    by (simp add: catch_block_response catch_block_no_response)
qed

theorem upstream_failures_distinguished_witness:
  "kaohsiung \<in> set (requests (getKaohsiungWeather configured upstream_401)) \<and>
   upstream_401 (CWA_API_KEY configured) kaohsiung = Rejected (Some unauthorized) \<and>
   requests (getKaohsiungWeather configured upstream_401) = [kaohsiung] \<and>
   response (getKaohsiungWeather configured upstream_401) =
     \<lparr> status = 401,
       body = Error_body
         \<lparr> error = ascii ''CWA API '' @ [0x932F, 0x8AA4], message = ascii ''Unauthorized'',
           details = Some (data unauthorized) \<rparr> \<rparr> \<and>
   taipei \<in> set (requests (getCityWeather Inr configured no_network (Some taipei))) \<and>
   no_network (CWA_API_KEY configured) taipei = Rejected None \<and>
   requests (getCityWeather Inr configured no_network (Some taipei)) = [taipei] \<and>
   response (getCityWeather Inr configured no_network (Some taipei)) = generic_error_response \<and>
   [] \<in> set (requests (getAllCityWeather configured no_network)) \<and>
   no_network (CWA_API_KEY configured) [] = Rejected None \<and>
   requests (getAllCityWeather configured no_network) = [[]] \<and>
   response (getAllCityWeather configured no_network) = generic_error_response"
proof -
  have k: "kaohsiung \<in> set (requests (getKaohsiungWeather configured upstream_401))"
    using configured_truthy by (simp add: getKaohsiungWeather_def)
  have t: "taipei \<in> set (requests (getCityWeather Inr configured no_network (Some taipei)))"
    using configured_truthy taipei_allowed by (simp add: getCityWeather_def or_else_examples)
  have a: "[] \<in> set (requests (getAllCityWeather configured no_network))"
    using configured_truthy by (simp add: getAllCityWeather_def)
  have u: "upstream_401 (CWA_API_KEY configured) kaohsiung = Rejected (Some unauthorized)"
    "no_network (CWA_API_KEY configured) taipei = Rejected None"
    "no_network (CWA_API_KEY configured) [] = Rejected None"
    by (simp_all add: upstream_401_def no_network_def)
  have m: "or_else (upstream_error_data.message (data unauthorized))
             [0x7121, 0x6CD5, 0x53D6, 0x5F97, 0x5929, 0x6C23, 0x8CC7, 0x6599] =
           ascii ''Unauthorized''"
    "error_response.status unauthorized = 401"
    by (simp_all add: unauthorized_def or_else_def ascii_def)
  have 1: "requests (getKaohsiungWeather configured upstream_401) = [kaohsiung] \<and>
   response (getKaohsiungWeather configured upstream_401) =
     \<lparr> status = 401,
       body = Error_body
         \<lparr> error = ascii ''CWA API '' @ [0x932F, 0x8AA4], message = ascii ''Unauthorized'',
           details = Some (data unauthorized) \<rparr> \<rparr>"
    using upstream_failures_distinguished[where out = "getKaohsiungWeather configured upstream_401"
        and cfg = configured and up = upstream_401 and n = kaohsiung and r = unauthorized, OF _ k]
      u(1) m
    by simp
  have 2: "requests (getCityWeather Inr configured no_network (Some taipei)) = [taipei] \<and>
   response (getCityWeather Inr configured no_network (Some taipei)) = generic_error_response"
    using upstream_failures_distinguished[where
        out = "getCityWeather Inr configured no_network (Some taipei)" and d = Inr
        and cfg = configured and up = no_network and n = taipei and p = "Some taipei", OF _ t]
      u(2)
    by simp
  have 3: "requests (getAllCityWeather configured no_network) = [[]] \<and>
   response (getAllCityWeather configured no_network) = generic_error_response"
    using upstream_failures_distinguished[where out = "getAllCityWeather configured no_network"
        and cfg = configured and up = no_network and n = "[]", OF _ a]
      u(3)
    by simp
  from 1 2 3 k t a u show ?thesis by blast
qed

text \<open>
  Claim C10, as stated, fails: when the reshaper raises on the first location, the
  handlers answer 500 although the upstream returned a location.
\<close>

theorem first_location_is_served_counterexample:
  "\<not> falsy (CWA_API_KEY configured) \<and> kaohsiung \<in> set ALLOWED_CITY_NAMES \<and>
   upstream_of (Some [ragged_location]) (CWA_API_KEY configured) kaohsiung =
     Resolved \<lparr> location = Some [ragged_location],
                datasetDescription = ascii ''36-hour forecast'' \<rparr> \<and>
   getKaohsiungWeather configured (upstream_of (Some [ragged_location])) =
     \<lparr> response = generic_error_response, requests = [kaohsiung] \<rparr> \<and>
   getCityWeather Inr configured (upstream_of (Some [ragged_location])) (Some kaohsiung) =
     \<lparr> response = generic_error_response, requests = [kaohsiung] \<rparr> \<and>
   status generic_error_response = 500"
  using configured_truthy kaohsiung_allowed
  by (simp add: handler_defs upstream_of_def ragged_location_def parse_wx_pop_no_time
      or_else_examples generic_error_response_def)

text \<open>
  Claim C10, amended. When the handler of a named region or of the fixed region has asked
  the upstream, the upstream resolves with at least one location and the reshaper returns
  on the first location's elements, the handler answers 200 with that first location:
  \<^verbatim>\<open>city\<close> is its \<^verbatim>\<open>locationName\<close>, which is never compared with the requested name.
\<close>

theorem first_location_is_served:
  assumes "out = getCityWeather d cfg up p \<or> out = getKaohsiungWeather cfg up"
    and "n \<in> set (requests out)"
    and "up (CWA_API_KEY cfg) n = Resolved recs"
    and "location recs = Some (l # ls)"
    and "parseWeatherElements (weatherElement l) = Inr fs"
  shows "out =
     \<lparr> response =
         \<lparr> status = 200,
           body = Success_body (Single
             \<lparr> city = locationName l, updateTime = datasetDescription recs, forecasts = fs \<rparr>) \<rparr>,
       requests = [n] \<rparr>"
proof -
  have "respond_first msg (up (CWA_API_KEY cfg) n) =
          Inr \<lparr> status = 200,
                body = Success_body (Single
                  \<lparr> city = locationName l, updateTime = datasetDescription recs,
                    forecasts = fs \<rparr>) \<rparr>" for msg
    using assms(3,4,5) by (simp add: respond_first_def buildLocationWeather_def)
  moreover from assms(1,2) obtain msg where "out =
           \<lparr> response = (case respond_first msg (up (CWA_API_KEY cfg) n) of
                           Inl err \<Rightarrow> catch_block err | Inr r \<Rightarrow> r),
             requests = [n] \<rparr>"
    using requested_city requested_kaohsiung by blast
  ultimately show ?thesis by simp
qed

theorem first_location_is_served_witness:
  "kaohsiung \<in> set (requests (getKaohsiungWeather configured (upstream_of (Some [taipei_location])))) \<and>
   kaohsiung \<in> set (requests (getCityWeather Inr configured (upstream_of (Some [taipei_location]))
                              (Some kaohsiung))) \<and>
   parseWeatherElements (weatherElement taipei_location) = Inr [wx_forecast] \<and>
   locationName taipei_location = taipei \<and> taipei \<noteq> kaohsiung \<and>
   getKaohsiungWeather configured (upstream_of (Some [taipei_location])) =
     \<lparr> response =
         \<lparr> status = 200,
           body = Success_body (Single
             \<lparr> city = taipei, updateTime = ascii ''36-hour forecast'',
               forecasts = [wx_forecast] \<rparr>) \<rparr>,
       requests = [kaohsiung] \<rparr> \<and>
   getCityWeather Inr configured (upstream_of (Some [taipei_location])) (Some kaohsiung) =
     \<lparr> response =
         \<lparr> status = 200,
           body = Success_body (Single
             \<lparr> city = taipei, updateTime = ascii ''36-hour forecast'',
               forecasts = [wx_forecast] \<rparr>) \<rparr>,
       requests = [kaohsiung] \<rparr>"
proof -
  let ?up = "upstream_of (Some [taipei_location])"
  have k: "kaohsiung \<in> set (requests (getKaohsiungWeather configured ?up))"
    using configured_truthy by (simp add: getKaohsiungWeather_def)
  have c: "kaohsiung \<in> set (requests (getCityWeather Inr configured ?up (Some kaohsiung)))"
    using configured_truthy kaohsiung_allowed by (simp add: getCityWeather_def or_else_examples)
  have u: "?up (CWA_API_KEY configured) kaohsiung =
             Resolved \<lparr> location = Some [taipei_location],
                        datasetDescription = ascii ''36-hour forecast'' \<rparr>"
    by (simp add: upstream_of_def)
  have l: "location \<lparr> location = Some [taipei_location],
                       datasetDescription = ascii ''36-hour forecast'' \<rparr> =
           Some (taipei_location # [])"
    by simp
  have p: "parseWeatherElements (weatherElement taipei_location) = Inr [wx_forecast]"
    by (simp add: taipei_location_def parse_wx_uvi)
  have n: "locationName taipei_location = taipei" "taipei \<noteq> kaohsiung"
    by (simp_all add: taipei_location_def taipei_def kaohsiung_def)
  show ?thesis
    using first_location_is_served[where out = "getKaohsiungWeather configured ?up"
        and cfg = configured and up = ?up, OF _ k u l p]
      first_location_is_served[where
        out = "getCityWeather Inr configured ?up (Some kaohsiung)" and d = Inr
        and p = "Some kaohsiung" and cfg = configured and up = ?up, OF _ c u l p]
      k c p n
    by simp
qed

end
